theory Spec2Isabelle
  imports Main
begin

section \<open>Configuration literals of \<^verbatim>\<open>setup.py\<close>\<close>

text \<open>
  The processor definitions are Python dict, list, str and bool literals. They are
  never evaluated locally, only handed to the cluster, so they are embedded as values
  of a JSON-like datatype; a dict literal keeps its keys in source order.
\<close>

datatype json =
    JString string
  | JBool bool
  | JObject "(string \<times> json) list"
  | JArray "json list"

definition EMBEDDING_MODEL_ID :: string where
  \<open>EMBEDDING_MODEL_ID = ''text-embedding-005''\<close>

definition JOIN_HEADERS_PROCESSOR :: json where
  \<open>JOIN_HEADERS_PROCESSOR =
    JObject
     [(''join'', JObject
       [(''field'', JString ''headings''),
        (''separator'', JString '', ''),
        (''on_failure'', JArray [JObject
           [(''set'', JObject
             [(''field'', JString ''headings''),
              (''value'', JString [])])]])])]\<close>

definition SET_BODY_PROCESSOR :: json where
  \<open>SET_BODY_PROCESSOR =
    JObject
     [(''set'', JObject
       [(''field'', JString ''text''),
        (''value'', JString ''
      Meta Description: {{{meta_description}}}
      Headings: {{{headings}}}
      Body: {{{body}}} {{{body_content}}}
    '')])]\<close>

definition REMOVE_FIELDS_PROCESSOR :: json where
  \<open>REMOVE_FIELDS_PROCESSOR =
    JObject
     [(''script'', JObject
       [(''source'', JString ''
          String[] fieldsToRemove = new String[] {
            "body",
            "body_content",
            "meta_description",
            "headings",
            "links",
            "url_port",
            "url_host",
            "url_path",
            "url_path_dir1",
            "url_path_dir2",
            "url_path_dir3",
            "additional_urls",
            "domains",
            "url_scheme"
          };
          for (field in fieldsToRemove) {
              if (ctx.containsKey(field)) {
                  ctx.remove(field);
              }
          }
        ''),
        (''description'', JString ''Runs a script to remove unnecessary fields'')])]\<close>

definition SET_DATES_PROCESSOR :: json where
  \<open>SET_DATES_PROCESSOR =
    JObject
     [(''script'', JObject
       [(''source'', JString ''
        if (ctx.containsKey("last_crawled_at") && ctx.last_crawled_at != null) {
            ctx.date = ctx.last_crawled_at;
        } else {
            ctx.date = (new Date()).getTime();
            ctx.last_crawled_at = ctx.date;
        }
        ''),
        (''description'', JString ''Sets the date field based on last_crawled_at or current time'')])]\<close>

definition SPLIT_URL_PROCESSOR :: json where
  \<open>SPLIT_URL_PROCESSOR =
    JObject
     [(''uri_parts'', JObject
       [(''field'', JString ''url''),
        (''target_field'', JString ''temp_url_parts''),
        (''keep_original'', JBool True),
        (''ignore_failure'', JBool True)])]\<close>

definition NORMALIZED_URL_PROCESSOR :: json where
  \<open>NORMALIZED_URL_PROCESSOR =
    JObject
     [(''script'', JObject
       [(''if'', JString ''ctx.containsKey('temp_url_parts')''),
        (''source'', JString ''
    def parts = ctx.temp_url_parts;
    String path = parts.path;
    
    // 1. Handle the path (remove trailing slash)
    if (path != null && path.endsWith('/') && path.length() > 0) {
      path = path.substring(0, path.length() - 1);
    } else if (path == null) {
      path = "";
    }
    
    // 2. Rebuild the normalized URL
    String normalized = parts.scheme + "://" + parts.domain;
    
    // 3. Add port only if it exists
    if (parts.port != null) {
      normalized += ":" + parts.port;
    }
    
    // 4. Add the cleaned path
    normalized += path;
    ctx.normalized_url = normalized;
  '')])]\<close>

definition REMOVE_TEMP_URL_PARTS_PROCESSOR :: json where
  \<open>REMOVE_TEMP_URL_PARTS_PROCESSOR =
    JObject
     [(''remove'', JObject
       [(''field'', JString ''temp_url_parts''),
        (''ignore_failure'', JBool True)])]\<close>

definition VERTEXAI_EMBEDDINGS_PROCESSOR :: json where
  \<open>VERTEXAI_EMBEDDINGS_PROCESSOR =
    JObject
     [(''inference'', JObject
       [(''model_id'', JString ''vertexai_embeddings''),
        (''input_output'', JObject
         [(''input_field'', JString ''text''),
          (''output_field'', JString (''embeddings.'' @ EMBEDDING_MODEL_ID))])])]\<close>


section \<open>Exceptions, the external systems and the observable state\<close>

text \<open>
  Python exceptions become values. Only the classes that the script itself raises or
  distinguishes are separate constructors; \<open>Exception\<close> stands for an instance of any
  other subclass of Python's \<^verbatim>\<open>Exception\<close> (transport, authentication and API errors
  of the client libraries). Each exception carries the text that \<^verbatim>\<open>str(e)\<close> gives,
  except \<open>KeyError\<close>, which carries the missing key. Signals outside \<^verbatim>\<open>Exception\<close>
  (\<^verbatim>\<open>KeyboardInterrupt\<close>) are not modelled.
\<close>

datatype exn =
    NotFoundError string
  | KeyError string
  | AssertionError string
  | JSONDecodeError string
  | Exception string

fun str_exn :: "exn \<Rightarrow> string" where
  "str_exn (NotFoundError m) = m"
| "str_exn (KeyError k) = [CHR 0x27] @ k @ [CHR 0x27]"
| "str_exn (AssertionError m) = m"
| "str_exn (JSONDecodeError m) = m"
| "str_exn (Exception m) = m"

fun is_NotFoundError :: "exn \<Rightarrow> bool" where
  "is_NotFoundError (NotFoundError m) = True"
| "is_NotFoundError (KeyError k) = False"
| "is_NotFoundError (AssertionError m) = False"
| "is_NotFoundError (JSONDecodeError m) = False"
| "is_NotFoundError (Exception m) = False"

fun is_JSONDecodeError :: "exn \<Rightarrow> bool" where
  "is_JSONDecodeError (NotFoundError m) = False"
| "is_JSONDecodeError (KeyError k) = False"
| "is_JSONDecodeError (AssertionError m) = False"
| "is_JSONDecodeError (JSONDecodeError m) = True"
| "is_JSONDecodeError (Exception m) = False"

text \<open>
  Every request that leaves the process is recorded, with its arguments, in the order
  it is issued: \<open>GetPipeline id\<close>, \<open>PutPipeline id description processors\<close>,
  \<open>InferenceGet task_type inference_id\<close>,
  \<open>PutGoogleVertexAI inference_id task_type service_settings\<close>,
  \<open>AccessSecretVersion name\<close> and \<open>Ping\<close>.
\<close>

datatype call =
    Ping
  | GetPipeline string
  | PutPipeline string string "json list"
  | InferenceGet string string
  | PutGoogleVertexAI string string json
  | AccessSecretVersion string

text \<open>
  The Elasticsearch client is a library object. Its methods are parameters of the
  model: each takes the state \<open>'w\<close> of the remote systems and either raises or
  returns, leaving a new remote state. The values that the script ignores (the fetched
  pipeline, the acknowledgement of a put) are the unit value.
\<close>

record 'w es_client =
  ping :: "'w \<Rightarrow> (exn + bool) \<times> 'w"
  ingest_get_pipeline :: "string \<Rightarrow> 'w \<Rightarrow> (exn + unit) \<times> 'w"
  ingest_put_pipeline :: "string \<Rightarrow> string \<Rightarrow> json list \<Rightarrow> 'w \<Rightarrow> (exn + unit) \<times> 'w"
  inference_get :: "string \<Rightarrow> string \<Rightarrow> 'w \<Rightarrow> (exn + unit) \<times> 'w"
  inference_put_googlevertexai :: "string \<Rightarrow> string \<Rightarrow> json \<Rightarrow> 'w \<Rightarrow> (exn + unit) \<times> 'w"

text \<open>
  What else the script takes from outside: the process environment, the constructor
  of the client, the secret store (\<open>access_secret_version\<close> stands for building the
  secret-manager client, the request and the UTF-8 decoding of the payload, any of
  which may raise) and \<^verbatim>\<open>json.loads\<close>.
\<close>

record 'w platform =
  environ :: "string \<Rightarrow> string option"
  Elasticsearch :: "string \<Rightarrow> string \<Rightarrow> exn + 'w es_client"
  access_secret_version :: "string \<Rightarrow> 'w \<Rightarrow> (exn + string) \<times> 'w"
  json_loads :: "string \<Rightarrow> exn + json"

text \<open>
  The state threaded through the script: the remote systems, the requests issued so
  far and the lines printed so far.
\<close>

record 'w world =
  remote :: 'w
  calls :: "call list"
  stdout :: "string list"

definition print :: "string \<Rightarrow> 'w world \<Rightarrow> 'w world" where
  "print line s = s\<lparr>stdout := stdout s @ [line]\<rparr>"

definition invoke :: "call \<Rightarrow> ('w \<Rightarrow> (exn + 'a) \<times> 'w) \<Rightarrow> 'w world \<Rightarrow> (exn + 'a) \<times> 'w world" where
  "invoke c f s =
     (case f (remote s) of
        (r, w) \<Rightarrow> (r, s\<lparr>remote := w, calls := calls s @ [c]\<rparr>))"

section \<open>The functions of \<^verbatim>\<open>setup.py\<close>\<close>

definition get_es_client :: "'w platform \<Rightarrow> 'w world \<Rightarrow> (exn + 'w es_client) \<times> 'w world" where
  "get_es_client pf s =
     (case environ pf ''ES_HOST'' of
        None \<Rightarrow> (Inl (KeyError ''ES_HOST''), s)
      | Some ES_HOST \<Rightarrow>
     (case environ pf ''ES_PORT'' of
        None \<Rightarrow> (Inl (KeyError ''ES_PORT''), s)
      | Some ES_PORT \<Rightarrow>
     (case environ pf ''ES_API_KEY'' of
        None \<Rightarrow> (Inl (KeyError ''ES_API_KEY''), s)
      | Some ES_API_KEY \<Rightarrow>
     (case Elasticsearch pf (ES_HOST @ '':'' @ ES_PORT) ES_API_KEY of
        Inl e \<Rightarrow> (Inl e, s)
      | Inr es \<Rightarrow>
     (case invoke Ping (ping es) s of
        (Inl e, s1) \<Rightarrow> (Inl e, s1)
      | (Inr alive, s1) \<Rightarrow>
          if alive then (Inr es, s1)
          else (Inl (AssertionError ''Elasticsearch cluster is not reachable''), s1))))))"

text \<open>
  \<^verbatim>\<open>secret_version_path\<close> of the secret-manager client formats a resource name.
\<close>

definition secret_version_path :: "string \<Rightarrow> string \<Rightarrow> string \<Rightarrow> string" where
  "secret_version_path project secret version =
     ''projects/'' @ project @ ''/secrets/'' @ secret @ ''/versions/'' @ version"

definition fetch_gcp_secret :: "'w platform \<Rightarrow> 'w world \<Rightarrow> (exn + string) \<times> 'w world" where
  "fetch_gcp_secret pf s =
     (let SECRET_NAME = ''snippets-api-project-service-account-json'';
          SECRET_MANAGER_PROJECT_ID = ''rag-query-analytics'';
          secret_version = secret_version_path SECRET_MANAGER_PROJECT_ID SECRET_NAME ''latest''
      in case invoke (AccessSecretVersion secret_version) (access_secret_version pf secret_version) s of
           (Inl e, s1) \<Rightarrow> (Inl e, s1)
         | (Inr secret_value, s1) \<Rightarrow>
             (case json_loads pf secret_value of
                Inl e \<Rightarrow>
                  if is_JSONDecodeError e
                  then (Inl (Exception ''Secret is not a valid JSON string''), s1)
                  else (Inl e, s1)
              | Inr parsed \<Rightarrow> (Inr secret_value, s1)))"

definition setup_ingest_pipeline ::
  "'w es_client \<Rightarrow> string \<Rightarrow> string \<Rightarrow> json list \<Rightarrow> 'w world \<Rightarrow> (exn + string option) \<times> 'w world" where
  "setup_ingest_pipeline es pipeline_id description processors s =
     (case invoke (GetPipeline pipeline_id) (ingest_get_pipeline es pipeline_id) s of
        (Inr found, s1) \<Rightarrow>
          (Inr (Some pipeline_id),
           print (''Ingest pipeline '' @ [CHR 0x27] @ pipeline_id @ [CHR 0x27] @ '' already exists.'') s1)
      | (Inl e, s1) \<Rightarrow>
          if is_NotFoundError e then
            (case invoke (PutPipeline pipeline_id description processors)
                    (ingest_put_pipeline es pipeline_id description processors) s1 of
               (Inr ack, s2) \<Rightarrow>
                 (Inr (Some pipeline_id),
                  print (''Ingest pipeline '' @ [CHR 0x27] @ pipeline_id @ [CHR 0x27] @ '' has been created.'') s2)
             | (Inl e2, s2) \<Rightarrow>
                 (Inr None,
                  print (''Error creating ingest pipeline '' @ [CHR 0x27] @ pipeline_id @ [CHR 0x27] @ '': ''
                         @ str_exn e2) s2))
          else (Inl e, s1))"

definition create_vertexai_embedding_inference_endpoint ::
  "'w platform \<Rightarrow> 'w es_client \<Rightarrow> string \<Rightarrow> 'w world \<Rightarrow> (exn + string option) \<times> 'w world" where
  "create_vertexai_embedding_inference_endpoint pf es inference_id s =
     (let TASK_TYPE = ''text_embedding'';
          SERVICE_ACCOUNT_PROJECT_ID = ''snippets-api-434014'';
          SERVICE_ACCOUNT_LOCATION = ''us-central1''
      in case fetch_gcp_secret pf s of
           (Inl e, s0) \<Rightarrow> (Inl e, s0)
         | (Inr SERVICE_ACCOUNT_JSON, s0) \<Rightarrow>
      (case invoke (InferenceGet TASK_TYPE inference_id) (inference_get es TASK_TYPE inference_id) s0 of
         (Inr found, s1) \<Rightarrow>
           (Inr (Some inference_id),
            print (''Inference endpoint '' @ [CHR 0x27] @ inference_id @ [CHR 0x27] @ '' already exists.'') s1)
       | (Inl e, s1) \<Rightarrow>
           if is_NotFoundError e then
             (let service_settings = JObject
                    [(''model_id'', JString EMBEDDING_MODEL_ID),
                     (''service_account_json'', JString SERVICE_ACCOUNT_JSON),
                     (''location'', JString SERVICE_ACCOUNT_LOCATION),
                     (''project_id'', JString SERVICE_ACCOUNT_PROJECT_ID)]
              in case invoke (PutGoogleVertexAI inference_id ''text_embedding'' service_settings)
                      (inference_put_googlevertexai es inference_id ''text_embedding'' service_settings) s1 of
                   (Inr ack, s2) \<Rightarrow>
                     (Inr (Some inference_id),
                      print (''Inference endpoint '' @ [CHR 0x27] @ inference_id @ [CHR 0x27] @ '' has been created.'') s2)
                 | (Inl e2, s2) \<Rightarrow>
                     (Inr None,
                      print (''Error creating inference endpoint '' @ [CHR 0x27] @ inference_id @ [CHR 0x27] @ '': ''
                             @ str_exn e2) s2))
           else (Inl e, s1)))"

definition create_normalizer_pipeline :: "'w es_client \<Rightarrow> 'w world \<Rightarrow> (exn + string option) \<times> 'w world" where
  "create_normalizer_pipeline es s =
     (let pipeline_id = ''es-crawler-normalizer-pipeline'';
          description = ''Pipeline to normalize crawled data'';
          processors =
            [JOIN_HEADERS_PROCESSOR,
             SET_BODY_PROCESSOR,
             REMOVE_FIELDS_PROCESSOR,
             SET_DATES_PROCESSOR,
             SPLIT_URL_PROCESSOR,
             NORMALIZED_URL_PROCESSOR,
             REMOVE_TEMP_URL_PARTS_PROCESSOR]
      in setup_ingest_pipeline es pipeline_id description processors s)"

definition create_embedding_pipeline :: "'w es_client \<Rightarrow> 'w world \<Rightarrow> (exn + string option) \<times> 'w world" where
  "create_embedding_pipeline es s =
     (let pipeline_id = ''es-crawler-embedding-pipeline'';
          description = ''Pipeline to generate embeddings for crawled data'';
          processors = [VERTEXAI_EMBEDDINGS_PROCESSOR]
      in setup_ingest_pipeline es pipeline_id description processors s)"

text \<open>
  Python's \<^verbatim>\<open>not x\<close> on an \<^verbatim>\<open>Optional[str]\<close>: true for \<^verbatim>\<open>None\<close> and for the empty string.
\<close>

fun falsy :: "string option \<Rightarrow> bool" where
  "falsy None = True"
| "falsy (Some v) = (v = [])"

definition create_self_served_crawler_pipelines :: "'w es_client \<Rightarrow> 'w world \<Rightarrow> (exn + bool) \<times> 'w world" where
  "create_self_served_crawler_pipelines es s =
     (case create_normalizer_pipeline es s of
        (Inl e, s1) \<Rightarrow> (Inl e, s1)
      | (Inr normalizer_pipeline_id, s1) \<Rightarrow>
          if falsy normalizer_pipeline_id
          then (Inr False, print ''Failed to create normalizer pipeline.'' s1)
          else
     (case create_embedding_pipeline es s1 of
        (Inl e, s2) \<Rightarrow> (Inl e, s2)
      | (Inr embedding_pipeline_id, s2) \<Rightarrow>
          if falsy embedding_pipeline_id
          then (Inr False, print ''Failed to create embedding pipeline.'' s2)
          else
     (case setup_ingest_pipeline es
             ''self-served-crawler-pipeline''
             ''Pipeline for self-served crawler to normalize and generate embeddings''
             [JObject [(''pipeline'', JObject [(''name'', JString ''search-default-ingestion'')])],
              JObject [(''pipeline'', JObject [(''name'', JString (the normalizer_pipeline_id))])],
              JObject [(''pipeline'', JObject [(''name'', JString (the embedding_pipeline_id))])]]
             s2 of
        (Inl e, s3) \<Rightarrow> (Inl e, s3)
      | (Inr self_served_pipeline_id, s3) \<Rightarrow>
          if falsy self_served_pipeline_id
          then (Inr False, print ''Failed to create self-served crawler pipeline.'' s3)
          else (Inr True, s3))))"

text \<open>
  The script body under \<^verbatim>\<open>if __name__ == "__main__"\<close>. The result is the exit status
  of the process: \<^verbatim>\<open>exit(0)\<close> and \<^verbatim>\<open>exit(1)\<close> in the \<^verbatim>\<open>else\<close> clause, and 0 when the
  \<^verbatim>\<open>except\<close> clause has run, because that clause only prints and assigns
  \<^verbatim>\<open>success = False\<close>, after which the script ends normally.
\<close>

definition main :: "'w platform \<Rightarrow> 'w world \<Rightarrow> int \<times> 'w world" where
  "main pf s =
     (let s0 = print ''Setting up self-served crawler pipelines...'' s in
      case get_es_client pf s0 of
        (Inl e, s1) \<Rightarrow> (0, print (''An error occurred: '' @ str_exn e) s1)
      | (Inr es, s1) \<Rightarrow>
     (case create_self_served_crawler_pipelines es s1 of
        (Inl e, s2) \<Rightarrow> (0, print (''An error occurred: '' @ str_exn e) s2)
      | (Inr success, s2) \<Rightarrow>
          if success
          then (0, print ''Self-served crawler pipelines have been set up successfully.'' s2)
          else (1, print ''Failed to set up self-served crawler pipelines.'' s2)))"

section \<open>Observing a run\<close>

text \<open>
  The requests issued between two states of a run, and the create requests among
  them (the two put methods of the client).
\<close>

definition issued :: "'w world \<Rightarrow> 'w world \<Rightarrow> call list" where
  "issued s t = drop (length (calls s)) (calls t)"

fun is_create :: "call \<Rightarrow> bool" where
  "is_create Ping = False"
| "is_create (GetPipeline i) = False"
| "is_create (PutPipeline i d ps) = True"
| "is_create (InferenceGet t i) = False"
| "is_create (PutGoogleVertexAI i t b) = True"
| "is_create (AccessSecretVersion n) = False"

definition creates :: "call list \<Rightarrow> call list" where
  "creates cs = filter is_create cs"

text \<open>The resource identifier a request names, if it names one.\<close>

fun resource_id :: "call \<Rightarrow> string option" where
  "resource_id Ping = None"
| "resource_id (GetPipeline i) = Some i"
| "resource_id (PutPipeline i d ps) = Some i"
| "resource_id (InferenceGet t i) = Some i"
| "resource_id (PutGoogleVertexAI i t b) = Some i"
| "resource_id (AccessSecretVersion n) = None"

section \<open>An in-memory cluster\<close>

text \<open>
  The cluster and the secret store are not code of this repository. For the
  statements about whole runs against a cluster state, and for concrete runs, they are
  replaced by a test double: a cluster holds pipelines and inference endpoints by id,
  answers an existence check for an absent id with \<open>NotFoundError\<close>, stores what a put
  sends, and can be told to fail the existence check or the put of an id with a
  transport or API error (\<open>get_fault\<close>, \<open>put_fault\<close>: the message of the error).
\<close>

record cluster =
  pipelines :: "string \<Rightarrow> (string \<times> json list) option"
  endpoints :: "string \<Rightarrow> (string \<times> json) option"
  alive :: bool
  get_fault :: "string \<Rightarrow> string option"
  put_fault :: "string \<Rightarrow> string option"
  secret_payload :: "exn + string"

definition mock_get :: "(cluster \<Rightarrow> string \<Rightarrow> 'a option) \<Rightarrow> string \<Rightarrow> cluster \<Rightarrow> (exn + unit) \<times> cluster" where
  "mock_get table i c =
     (case get_fault c i of
        Some m \<Rightarrow> (Inl (Exception m), c)
      | None \<Rightarrow>
          (case table c i of
             None \<Rightarrow> (Inl (NotFoundError (''resource_not_found_exception: '' @ i)), c)
           | Some r \<Rightarrow> (Inr (), c)))"

definition mock_es_client :: "cluster es_client" where
  "mock_es_client =
     \<lparr>ping = (\<lambda>c. (Inr (alive c), c)),
      ingest_get_pipeline = mock_get pipelines,
      ingest_put_pipeline = (\<lambda>i d ps c.
        case put_fault c i of
          Some m \<Rightarrow> (Inl (Exception m), c)
        | None \<Rightarrow> (Inr (), c\<lparr>pipelines := (pipelines c)(i \<mapsto> (d, ps))\<rparr>)),
      inference_get = (\<lambda>t. mock_get endpoints),
      inference_put_googlevertexai = (\<lambda>i t b c.
        case put_fault c i of
          Some m \<Rightarrow> (Inl (Exception m), c)
        | None \<Rightarrow> (Inr (), c\<lparr>endpoints := (endpoints c)(i \<mapsto> (t, b))\<rparr>))\<rparr>"

text \<open>
  A stand-in for \<^verbatim>\<open>json.loads\<close> that accepts the empty object only, and a platform
  built on the in-memory cluster.
\<close>

definition mock_json_loads :: "string \<Rightarrow> exn + json" where
  "mock_json_loads v =
     (if v = ''{}'' then Inr (JObject []) else Inl (JSONDecodeError ''Expecting value''))"

definition mock_platform :: "(string \<Rightarrow> string option) \<Rightarrow> cluster platform" where
  "mock_platform env =
     \<lparr>environ = env,
      Elasticsearch = (\<lambda>hosts api_key. Inr mock_es_client),
      access_secret_version = (\<lambda>name c. (secret_payload c, c)),
      json_loads = mock_json_loads\<rparr>"

definition full_environ :: "string \<Rightarrow> string option" where
  "full_environ =
     [''ES_HOST'' \<mapsto> ''https://localhost'', ''ES_PORT'' \<mapsto> ''9200'', ''ES_API_KEY'' \<mapsto> ''key'']"

text \<open>The cluster with no pipeline and no endpoint, reachable and without faults.\<close>

definition empty_cluster :: cluster where
  "empty_cluster =
     \<lparr>pipelines = (\<lambda>i. None),
      endpoints = (\<lambda>i. None),
      alive = True,
      get_fault = (\<lambda>i. None),
      put_fault = (\<lambda>i. None),
      secret_payload = Inr ''{}''\<rparr>"

definition start :: "'w \<Rightarrow> 'w world" where
  "start w = \<lparr>remote = w, calls = [], stdout = []\<rparr>"

text \<open>
  Three variations of the empty cluster, for concrete runs: one that already holds a
  pipeline under the id \<open>i\<close>, one that rejects the put of \<open>i\<close>, and one whose existence
  check of \<open>i\<close> fails in transport.
\<close>

definition holding :: "string \<Rightarrow> cluster" where
  "holding i = empty_cluster\<lparr>pipelines := [i \<mapsto> (''present before the run'', [])]\<rparr>"

definition rejecting :: "string \<Rightarrow> cluster" where
  "rejecting i = empty_cluster\<lparr>put_fault := [i \<mapsto> ''security_exception: action is unauthorized'']\<rparr>"

definition timing_out :: "string \<Rightarrow> cluster" where
  "timing_out i = empty_cluster\<lparr>get_fault := [i \<mapsto> ''Connection timed out'']\<rparr>"

text \<open>
  The \<^verbatim>\<open>service_settings\<close> that \<^verbatim>\<open>create_vertexai_embedding_inference_endpoint\<close> sends
  for a fetched secret, with the constants of the function written out.
\<close>

definition vertexai_service_settings :: "string \<Rightarrow> json" where
  "vertexai_service_settings v = JObject
     [(''model_id'', JString ''text-embedding-005''),
      (''service_account_json'', JString v),
      (''location'', JString ''us-central1''),
      (''project_id'', JString ''snippets-api-434014'')]"

text \<open>
  The six requests of the provisioning sequence, in the order in which a run against
  a cluster holding none of the three pipelines issues them.
\<close>

definition provisioning_requests :: "call list" where
  "provisioning_requests =
     [GetPipeline ''es-crawler-normalizer-pipeline'',
      PutPipeline ''es-crawler-normalizer-pipeline'' ''Pipeline to normalize crawled data''
        [JOIN_HEADERS_PROCESSOR, SET_BODY_PROCESSOR, REMOVE_FIELDS_PROCESSOR, SET_DATES_PROCESSOR,
         SPLIT_URL_PROCESSOR, NORMALIZED_URL_PROCESSOR, REMOVE_TEMP_URL_PARTS_PROCESSOR],
      GetPipeline ''es-crawler-embedding-pipeline'',
      PutPipeline ''es-crawler-embedding-pipeline'' ''Pipeline to generate embeddings for crawled data''
        [VERTEXAI_EMBEDDINGS_PROCESSOR],
      GetPipeline ''self-served-crawler-pipeline'',
      PutPipeline ''self-served-crawler-pipeline''
        ''Pipeline for self-served crawler to normalize and generate embeddings''
        [JObject [(''pipeline'', JObject [(''name'', JString ''search-default-ingestion'')])],
         JObject [(''pipeline'', JObject [(''name'', JString ''es-crawler-normalizer-pipeline'')])],
         JObject [(''pipeline'', JObject [(''name'', JString ''es-crawler-embedding-pipeline'')])]]]"

text \<open>
  On the in-memory cluster, an id is settled when its existence check succeeds: the
  check has no fault and the cluster holds a pipeline under the id.
\<close>

definition settled :: "cluster \<Rightarrow> string \<Rightarrow> bool" where
  "settled c i = (get_fault c i = None \<and> pipelines c i \<noteq> None)"

section \<open>The branches of the two ensure operations\<close>

text \<open>
  Each ensure operation has four outcomes, decided by what the client answers: the
  resource is found, the existence check raises something other than not-found, the
  resource is absent and the put succeeds, or it is absent and the put raises. One
  equation for each gives the result and the state left behind.
\<close>

lemma invoke_eq:
  "invoke c f s = (fst (f (remote s)), s\<lparr>remote := snd (f (remote s)), calls := calls s @ [c]\<rparr>)"
  by (simp add: invoke_def split: prod.splits)

lemma issued_append: "calls t = calls s @ cs \<Longrightarrow> issued s t = cs"
  by (simp add: issued_def)

lemma setup_found:
  assumes "fst (ingest_get_pipeline es pid (remote s)) = Inr u"
  shows "setup_ingest_pipeline es pid d ps s =
           (Inr (Some pid),
            print (''Ingest pipeline '' @ [CHR 0x27] @ pid @ [CHR 0x27] @ '' already exists.'')
              (s\<lparr>remote := snd (ingest_get_pipeline es pid (remote s)),
                 calls := calls s @ [GetPipeline pid]\<rparr>))"
  using assms by (simp add: setup_ingest_pipeline_def invoke_eq)

lemma setup_raised:
  assumes "fst (ingest_get_pipeline es pid (remote s)) = Inl e" and "\<not> is_NotFoundError e"
  shows "setup_ingest_pipeline es pid d ps s =
           (Inl e, s\<lparr>remote := snd (ingest_get_pipeline es pid (remote s)),
                      calls := calls s @ [GetPipeline pid]\<rparr>)"
  using assms by (simp add: setup_ingest_pipeline_def invoke_eq)

lemma setup_created:
  assumes "fst (ingest_get_pipeline es pid (remote s)) = Inl e" and "is_NotFoundError e"
    and "fst (ingest_put_pipeline es pid d ps (snd (ingest_get_pipeline es pid (remote s)))) = Inr u"
  shows "setup_ingest_pipeline es pid d ps s =
           (Inr (Some pid),
            print (''Ingest pipeline '' @ [CHR 0x27] @ pid @ [CHR 0x27] @ '' has been created.'')
              (s\<lparr>remote := snd (ingest_put_pipeline es pid d ps (snd (ingest_get_pipeline es pid (remote s)))),
                 calls := calls s @ [GetPipeline pid, PutPipeline pid d ps]\<rparr>))"
  using assms by (simp add: setup_ingest_pipeline_def invoke_eq)

lemma setup_rejected:
  assumes "fst (ingest_get_pipeline es pid (remote s)) = Inl e" and "is_NotFoundError e"
    and "fst (ingest_put_pipeline es pid d ps (snd (ingest_get_pipeline es pid (remote s)))) = Inl e2"
  shows "setup_ingest_pipeline es pid d ps s =
           (Inr None,
            print (''Error creating ingest pipeline '' @ [CHR 0x27] @ pid @ [CHR 0x27] @ '': '' @ str_exn e2)
              (s\<lparr>remote := snd (ingest_put_pipeline es pid d ps (snd (ingest_get_pipeline es pid (remote s)))),
                 calls := calls s @ [GetPipeline pid, PutPipeline pid d ps]\<rparr>))"
  using assms by (simp add: setup_ingest_pipeline_def invoke_eq)

lemma endpoint_secret_raised:
  assumes "fetch_gcp_secret pf s = (Inl e, s0)"
  shows "create_vertexai_embedding_inference_endpoint pf es iid s = (Inl e, s0)"
  using assms by (simp add: create_vertexai_embedding_inference_endpoint_def Let_def)

lemma endpoint_found:
  assumes "fetch_gcp_secret pf s = (Inr v, s0)"
    and "fst (inference_get es ''text_embedding'' iid (remote s0)) = Inr u"
  shows "create_vertexai_embedding_inference_endpoint pf es iid s =
           (Inr (Some iid),
            print (''Inference endpoint '' @ [CHR 0x27] @ iid @ [CHR 0x27] @ '' already exists.'')
              (s0\<lparr>remote := snd (inference_get es ''text_embedding'' iid (remote s0)),
                  calls := calls s0 @ [InferenceGet ''text_embedding'' iid]\<rparr>))"
  using assms by (simp add: create_vertexai_embedding_inference_endpoint_def invoke_eq Let_def)

lemma endpoint_raised:
  assumes "fetch_gcp_secret pf s = (Inr v, s0)"
    and "fst (inference_get es ''text_embedding'' iid (remote s0)) = Inl e" and "\<not> is_NotFoundError e"
  shows "create_vertexai_embedding_inference_endpoint pf es iid s =
           (Inl e, s0\<lparr>remote := snd (inference_get es ''text_embedding'' iid (remote s0)),
                       calls := calls s0 @ [InferenceGet ''text_embedding'' iid]\<rparr>)"
  using assms by (simp add: create_vertexai_embedding_inference_endpoint_def invoke_eq Let_def)

lemma endpoint_created:
  assumes "fetch_gcp_secret pf s = (Inr v, s0)"
    and "fst (inference_get es ''text_embedding'' iid (remote s0)) = Inl e" and "is_NotFoundError e"
    and "fst (inference_put_googlevertexai es iid ''text_embedding'' (vertexai_service_settings v)
               (snd (inference_get es ''text_embedding'' iid (remote s0)))) = Inr u"
  shows "create_vertexai_embedding_inference_endpoint pf es iid s =
           (Inr (Some iid),
            print (''Inference endpoint '' @ [CHR 0x27] @ iid @ [CHR 0x27] @ '' has been created.'')
              (s0\<lparr>remote := snd (inference_put_googlevertexai es iid ''text_embedding'' (vertexai_service_settings v)
                                  (snd (inference_get es ''text_embedding'' iid (remote s0)))),
                  calls := calls s0 @ [InferenceGet ''text_embedding'' iid,
                     PutGoogleVertexAI iid ''text_embedding'' (vertexai_service_settings v)]\<rparr>))"
  using assms by (simp add: create_vertexai_embedding_inference_endpoint_def invoke_eq
      vertexai_service_settings_def EMBEDDING_MODEL_ID_def Let_def)

lemma endpoint_rejected:
  assumes "fetch_gcp_secret pf s = (Inr v, s0)"
    and "fst (inference_get es ''text_embedding'' iid (remote s0)) = Inl e" and "is_NotFoundError e"
    and "fst (inference_put_googlevertexai es iid ''text_embedding'' (vertexai_service_settings v)
               (snd (inference_get es ''text_embedding'' iid (remote s0)))) = Inl e2"
  shows "create_vertexai_embedding_inference_endpoint pf es iid s =
           (Inr None,
            print (''Error creating inference endpoint '' @ [CHR 0x27] @ iid @ [CHR 0x27] @ '': '' @ str_exn e2)
              (s0\<lparr>remote := snd (inference_put_googlevertexai es iid ''text_embedding'' (vertexai_service_settings v)
                                  (snd (inference_get es ''text_embedding'' iid (remote s0)))),
                  calls := calls s0 @ [InferenceGet ''text_embedding'' iid,
                     PutGoogleVertexAI iid ''text_embedding'' (vertexai_service_settings v)]\<rparr>))"
  using assms by (simp add: create_vertexai_embedding_inference_endpoint_def invoke_eq
      vertexai_service_settings_def EMBEDDING_MODEL_ID_def Let_def)

section \<open>Requests and result of one pipeline ensure call\<close>

lemma setup_calls:
  "calls (snd (setup_ingest_pipeline es pid d ps s)) =
     calls s @ GetPipeline pid #
       (case fst (ingest_get_pipeline es pid (remote s)) of
          Inl e \<Rightarrow> if is_NotFoundError e then [PutPipeline pid d ps] else []
        | Inr u \<Rightarrow> [])"
  by (simp add: setup_ingest_pipeline_def invoke_eq print_def split: sum.splits)

lemma setup_result:
  "fst (setup_ingest_pipeline es pid d ps s) =
     (case fst (ingest_get_pipeline es pid (remote s)) of
        Inl e \<Rightarrow>
          if is_NotFoundError e then
            (case fst (ingest_put_pipeline es pid d ps (snd (ingest_get_pipeline es pid (remote s)))) of
               Inl e2 \<Rightarrow> Inr None
             | Inr u \<Rightarrow> Inr (Some pid))
          else Inl e
      | Inr u \<Rightarrow> Inr (Some pid))"
  by (simp add: setup_ingest_pipeline_def invoke_eq print_def split: sum.splits)

lemma calls_print [simp]: "calls (print l s) = calls s"
  by (simp add: print_def)

lemma remote_print [simp]: "remote (print l s) = remote s"
  by (simp add: print_def)


lemma setup_falsy_calls:
  assumes "setup_ingest_pipeline es pid d ps s = (Inr r, t)" and "falsy r" and "pid \<noteq> []"
  shows "calls t = calls s @ [GetPipeline pid, PutPipeline pid d ps]"
proof -
  from assms have "fst (setup_ingest_pipeline es pid d ps s) = Inr r"
    and "t = snd (setup_ingest_pipeline es pid d ps s)"
    by simp_all
  with assms(2,3) show ?thesis
    by (auto simp: setup_result setup_calls split: sum.splits if_splits)
qed

lemma setup_truthy:
  assumes "setup_ingest_pipeline es pid d ps s = (Inr r, t)" and "\<not> falsy r"
  shows "r = Some pid"
proof -
  from assms have "fst (setup_ingest_pipeline es pid d ps s) = Inr r"
    by simp
  with assms(2) show ?thesis
    by (auto simp: setup_result split: sum.splits if_splits)
qed

lemma setup_calls_cases:
  assumes "setup_ingest_pipeline es pid d ps s = (r, t)"
  shows "calls t = calls s @ [GetPipeline pid]
    \<or> calls t = calls s @ [GetPipeline pid, PutPipeline pid d ps]"
proof -
  from assms have "t = snd (setup_ingest_pipeline es pid d ps s)"
    by simp
  then show ?thesis
    by (simp add: setup_calls split: sum.splits)
qed

section \<open>Requests of the provisioning sequence\<close>

text \<open>
  A run of \<open>create_self_served_crawler_pipelines\<close> stops after the first, the second or
  the third ensure call; what it adds after that call is printed lines only.
\<close>

lemma sequence_stops:
  assumes n: "create_normalizer_pipeline es s = (r1, s1)"
    and e: "create_embedding_pipeline es s1 = (r2, s2)"
    and c: "setup_ingest_pipeline es ''self-served-crawler-pipeline''
        ''Pipeline for self-served crawler to normalize and generate embeddings''
        [JObject [(''pipeline'', JObject [(''name'', JString ''search-default-ingestion'')])],
         JObject [(''pipeline'', JObject [(''name'', JString ''es-crawler-normalizer-pipeline'')])],
         JObject [(''pipeline'', JObject [(''name'', JString ''es-crawler-embedding-pipeline'')])]]
        s2 = (r3, s3)"
  shows "(calls (snd (create_self_served_crawler_pipelines es s)) = calls s1
          \<and> remote (snd (create_self_served_crawler_pipelines es s)) = remote s1)
      \<or> (calls (snd (create_self_served_crawler_pipelines es s)) = calls s2
          \<and> remote (snd (create_self_served_crawler_pipelines es s)) = remote s2)
      \<or> (calls (snd (create_self_served_crawler_pipelines es s)) = calls s3
          \<and> remote (snd (create_self_served_crawler_pipelines es s)) = remote s3)"
proof (cases r1)
  case (Inl x)
  with n show ?thesis
    by (simp add: create_self_served_crawler_pipelines_def)
next
  case rn: (Inr rn)
  show ?thesis
  proof (cases "falsy rn")
    case True
    with n rn show ?thesis
      by (simp add: create_self_served_crawler_pipelines_def)
  next
    case nok: False
    with n rn have rn': "rn = Some ''es-crawler-normalizer-pipeline''"
      unfolding create_normalizer_pipeline_def Let_def by (blast dest: setup_truthy)
    show ?thesis
    proof (cases r2)
      case (Inl x)
      with n rn nok e show ?thesis
        by (simp add: create_self_served_crawler_pipelines_def)
    next
      case re: (Inr re)
      show ?thesis
      proof (cases "falsy re")
        case True
        with n rn nok e re show ?thesis
          by (simp add: create_self_served_crawler_pipelines_def)
      next
        case eok: False
        with e re have re': "re = Some ''es-crawler-embedding-pipeline''"
          unfolding create_embedding_pipeline_def Let_def by (blast dest: setup_truthy)
        from n rn rn' e re re' c show ?thesis
          by (simp add: create_self_served_crawler_pipelines_def split: sum.splits)
      qed
    qed
  qed
qed

text \<open>
  Whatever the client answers, a run only adds requests, and each of them is one of
  the six provisioning requests.
\<close>

lemma provisioning_requests_mem:
  "GetPipeline ''es-crawler-normalizer-pipeline'' \<in> set provisioning_requests"
  "PutPipeline ''es-crawler-normalizer-pipeline'' ''Pipeline to normalize crawled data''
        [JOIN_HEADERS_PROCESSOR, SET_BODY_PROCESSOR, REMOVE_FIELDS_PROCESSOR, SET_DATES_PROCESSOR,
         SPLIT_URL_PROCESSOR, NORMALIZED_URL_PROCESSOR, REMOVE_TEMP_URL_PARTS_PROCESSOR]
     \<in> set provisioning_requests"
  "GetPipeline ''es-crawler-embedding-pipeline'' \<in> set provisioning_requests"
  "PutPipeline ''es-crawler-embedding-pipeline'' ''Pipeline to generate embeddings for crawled data''
        [VERTEXAI_EMBEDDINGS_PROCESSOR]
     \<in> set provisioning_requests"
  "GetPipeline ''self-served-crawler-pipeline'' \<in> set provisioning_requests"
  "PutPipeline ''self-served-crawler-pipeline''
        ''Pipeline for self-served crawler to normalize and generate embeddings''
        [JObject [(''pipeline'', JObject [(''name'', JString ''search-default-ingestion'')])],
         JObject [(''pipeline'', JObject [(''name'', JString ''es-crawler-normalizer-pipeline'')])],
         JObject [(''pipeline'', JObject [(''name'', JString ''es-crawler-embedding-pipeline'')])]]
     \<in> set provisioning_requests"
  unfolding provisioning_requests_def by (rule list.set_intros | rule list.set_intros(2))+

lemma ensure_requests:
  assumes "setup_ingest_pipeline es pid d ps s = (r, t)"
    and "GetPipeline pid \<in> A" and "PutPipeline pid d ps \<in> A"
  shows "\<exists>xs. calls t = calls s @ xs \<and> set xs \<subseteq> A"
  using setup_calls_cases [OF assms(1)] assms(2,3) by auto

lemma sequence_requests:
  "\<exists>xs. calls (snd (create_self_served_crawler_pipelines es s)) = calls s @ xs
        \<and> set xs \<subseteq> set provisioning_requests"
proof -
  obtain r1 s1 where n: "create_normalizer_pipeline es s = (r1, s1)"
    by fastforce
  obtain r2 s2 where e: "create_embedding_pipeline es s1 = (r2, s2)"
    by fastforce
  obtain r3 s3 where c: "setup_ingest_pipeline es ''self-served-crawler-pipeline''
        ''Pipeline for self-served crawler to normalize and generate embeddings''
        [JObject [(''pipeline'', JObject [(''name'', JString ''search-default-ingestion'')])],
         JObject [(''pipeline'', JObject [(''name'', JString ''es-crawler-normalizer-pipeline'')])],
         JObject [(''pipeline'', JObject [(''name'', JString ''es-crawler-embedding-pipeline'')])]]
        s2 = (r3, s3)"
    by fastforce
  from n obtain xs1 where x1: "calls s1 = calls s @ xs1" "set xs1 \<subseteq> set provisioning_requests"
    unfolding create_normalizer_pipeline_def Let_def
    using ensure_requests provisioning_requests_mem(1,2) by blast
  from e obtain xs2 where x2: "calls s2 = calls s1 @ xs2" "set xs2 \<subseteq> set provisioning_requests"
    unfolding create_embedding_pipeline_def Let_def
    using ensure_requests provisioning_requests_mem(3,4) by blast
  from c obtain xs3 where x3: "calls s3 = calls s2 @ xs3" "set xs3 \<subseteq> set provisioning_requests"
    using ensure_requests provisioning_requests_mem(5,6) by blast
  from sequence_stops [OF n e c] x1 x2 x3 show ?thesis
    by auto
qed

section \<open>The ensure operation and the sequence on the in-memory cluster\<close>

text \<open>
  On the in-memory cluster the outcome of an ensure call is decided by the fault and
  the content of the cluster at the id. An ensure call changes nothing but the
  pipeline it creates; a run that did not have a create rejected leaves every id it
  reached either settled or with the fault that stopped it, and a run from such a
  state finds the settled ids and stops at the same fault.
\<close>

lemma mock_ensure:
  "setup_ingest_pipeline mock_es_client i d ps s =
     (case get_fault (remote s) i of
        Some m \<Rightarrow> (Inl (Exception m), s\<lparr>calls := calls s @ [GetPipeline i]\<rparr>)
      | None \<Rightarrow>
          (case pipelines (remote s) i of
             Some p \<Rightarrow>
               (Inr (Some i),
                print (''Ingest pipeline '' @ [CHR 0x27] @ i @ [CHR 0x27] @ '' already exists.'')
                  (s\<lparr>calls := calls s @ [GetPipeline i]\<rparr>))
           | None \<Rightarrow>
               (case put_fault (remote s) i of
                  Some m \<Rightarrow>
                    (Inr None,
                     print (''Error creating ingest pipeline '' @ [CHR 0x27] @ i @ [CHR 0x27] @ '': '' @ m)
                       (s\<lparr>calls := calls s @ [GetPipeline i, PutPipeline i d ps]\<rparr>))
                | None \<Rightarrow>
                    (Inr (Some i),
                     print (''Ingest pipeline '' @ [CHR 0x27] @ i @ [CHR 0x27] @ '' has been created.'')
                       (s\<lparr>remote := (remote s)\<lparr>pipelines := (pipelines (remote s))(i \<mapsto> (d, ps))\<rparr>,
                          calls := calls s @ [GetPipeline i, PutPipeline i d ps]\<rparr>)))))"
  by (simp add: setup_ingest_pipeline_def invoke_eq mock_es_client_def mock_get_def print_def
      split: option.splits)

lemma mock_ensure_frame:
  assumes "setup_ingest_pipeline mock_es_client i d ps s = (r, t)"
  shows "get_fault (remote t) = get_fault (remote s)"
    and "put_fault (remote t) = put_fault (remote s)"
    and "endpoints (remote t) = endpoints (remote s)"
    and "pipelines (remote s) j = Some p \<Longrightarrow> pipelines (remote t) j = Some p"
    and "settled (remote s) j \<Longrightarrow> settled (remote t) j"
  using assms by (auto simp: mock_ensure settled_def split: option.splits)

lemma mock_ensure_outcome:
  assumes "setup_ingest_pipeline mock_es_client i d ps s = (r, t)"
  shows "(\<exists>m. r = Inl (Exception m) \<and> get_fault (remote t) i = Some m)
    \<or> (r = Inr (Some i) \<and> settled (remote t) i)
    \<or> r = Inr None"
  using assms by (auto simp: mock_ensure settled_def split: option.splits)

lemma mock_ensure_settled:
  assumes "settled (remote u) i"
  shows "setup_ingest_pipeline mock_es_client i d ps u =
           (Inr (Some i),
            print (''Ingest pipeline '' @ [CHR 0x27] @ i @ [CHR 0x27] @ '' already exists.'')
              (u\<lparr>calls := calls u @ [GetPipeline i]\<rparr>))"
  using assms by (auto simp: mock_ensure settled_def)

lemma mock_ensure_fault:
  assumes "get_fault (remote u) i = Some m"
  shows "setup_ingest_pipeline mock_es_client i d ps u =
           (Inl (Exception m), u\<lparr>calls := calls u @ [GetPipeline i]\<rparr>)"
  using assms by (simp add: mock_ensure)


lemma rerun_after_success:
  assumes "settled (remote u) ''es-crawler-normalizer-pipeline''"
    and "settled (remote u) ''es-crawler-embedding-pipeline''"
    and "settled (remote u) ''self-served-crawler-pipeline''"
  shows "fst (create_self_served_crawler_pipelines mock_es_client u) = Inr True"
    and "creates (issued u (snd (create_self_served_crawler_pipelines mock_es_client u))) = []"
  using assms
  by (simp_all add: create_self_served_crawler_pipelines_def create_normalizer_pipeline_def
      create_embedding_pipeline_def Let_def mock_ensure_settled print_def issued_def creates_def)

lemma rerun_after_normalizer_fault:
  assumes "get_fault (remote u) ''es-crawler-normalizer-pipeline'' = Some m"
  shows "fst (create_self_served_crawler_pipelines mock_es_client u) = Inl (Exception m)"
    and "creates (issued u (snd (create_self_served_crawler_pipelines mock_es_client u))) = []"
  using assms
  by (simp_all add: create_self_served_crawler_pipelines_def create_normalizer_pipeline_def
      Let_def mock_ensure_fault issued_def creates_def)

lemma rerun_after_embedding_fault:
  assumes "settled (remote u) ''es-crawler-normalizer-pipeline''"
    and "get_fault (remote u) ''es-crawler-embedding-pipeline'' = Some m"
  shows "fst (create_self_served_crawler_pipelines mock_es_client u) = Inl (Exception m)"
    and "creates (issued u (snd (create_self_served_crawler_pipelines mock_es_client u))) = []"
  using assms
  by (simp_all add: create_self_served_crawler_pipelines_def create_normalizer_pipeline_def
      create_embedding_pipeline_def Let_def mock_ensure_settled mock_ensure_fault print_def
      issued_def creates_def)

lemma rerun_after_composite_fault:
  assumes "settled (remote u) ''es-crawler-normalizer-pipeline''"
    and "settled (remote u) ''es-crawler-embedding-pipeline''"
    and "get_fault (remote u) ''self-served-crawler-pipeline'' = Some m"
  shows "fst (create_self_served_crawler_pipelines mock_es_client u) = Inl (Exception m)"
    and "creates (issued u (snd (create_self_served_crawler_pipelines mock_es_client u))) = []"
  using assms
  by (simp_all add: create_self_served_crawler_pipelines_def create_normalizer_pipeline_def
      create_embedding_pipeline_def Let_def mock_ensure_settled mock_ensure_fault print_def
      issued_def creates_def)


lemma first_run_outcome:
  assumes "create_self_served_crawler_pipelines mock_es_client s = (r, t)" and "r \<noteq> Inr False"
  shows "(\<exists>m. r = Inl (Exception m)
            \<and> get_fault (remote t) ''es-crawler-normalizer-pipeline'' = Some m)
    \<or> (\<exists>m. r = Inl (Exception m)
            \<and> settled (remote t) ''es-crawler-normalizer-pipeline''
            \<and> get_fault (remote t) ''es-crawler-embedding-pipeline'' = Some m)
    \<or> (\<exists>m. r = Inl (Exception m)
            \<and> settled (remote t) ''es-crawler-normalizer-pipeline''
            \<and> settled (remote t) ''es-crawler-embedding-pipeline''
            \<and> get_fault (remote t) ''self-served-crawler-pipeline'' = Some m)
    \<or> (r = Inr True
            \<and> settled (remote t) ''es-crawler-normalizer-pipeline''
            \<and> settled (remote t) ''es-crawler-embedding-pipeline''
            \<and> settled (remote t) ''self-served-crawler-pipeline'')"
proof -
  define composite where "composite =
        [JObject [(''pipeline'', JObject [(''name'', JString ''search-default-ingestion'')])],
         JObject [(''pipeline'', JObject [(''name'', JString ''es-crawler-normalizer-pipeline'')])],
         JObject [(''pipeline'', JObject [(''name'', JString ''es-crawler-embedding-pipeline'')])]]"
  obtain r1 s1 where n: "create_normalizer_pipeline mock_es_client s = (r1, s1)"
    by fastforce
  obtain r2 s2 where e: "create_embedding_pipeline mock_es_client s1 = (r2, s2)"
    by fastforce
  obtain r3 s3 where c: "setup_ingest_pipeline mock_es_client ''self-served-crawler-pipeline''
        ''Pipeline for self-served crawler to normalize and generate embeddings'' composite s2 = (r3, s3)"
    by fastforce
  note n' = n [unfolded create_normalizer_pipeline_def Let_def]
  note e' = e [unfolded create_embedding_pipeline_def Let_def]
  note o1 = mock_ensure_outcome [OF n']
  note o2 = mock_ensure_outcome [OF e']
  note o3 = mock_ensure_outcome [OF c]
  show ?thesis
  proof (cases r1)
    case (Inl x)
    with n assms have "r = Inl x" "t = s1"
      by (simp_all add: create_self_served_crawler_pipelines_def)
    with o1 Inl show ?thesis
      by auto
  next
    case rn: (Inr rn)
    show ?thesis
    proof (cases "falsy rn")
      case True
      with n rn assms show ?thesis
        by (simp add: create_self_served_crawler_pipelines_def)
    next
      case nok: False
      with o1 rn have rn': "rn = Some ''es-crawler-normalizer-pipeline''"
        and st1: "settled (remote s1) ''es-crawler-normalizer-pipeline''"
        by auto
      show ?thesis
      proof (cases r2)
        case (Inl x)
        with n rn nok e assms have "r = Inl x" "t = s2"
          by (simp_all add: create_self_served_crawler_pipelines_def)
        with o2 Inl mock_ensure_frame(5) [OF e' st1] show ?thesis
          by auto
      next
        case re: (Inr re)
        show ?thesis
        proof (cases "falsy re")
          case True
          with n rn nok e re assms show ?thesis
            by (simp add: create_self_served_crawler_pipelines_def)
        next
          case eok: False
          with o2 re have re': "re = Some ''es-crawler-embedding-pipeline''"
            and st2: "settled (remote s2) ''es-crawler-embedding-pipeline''"
            by auto
          note st1' = mock_ensure_frame(5) [OF e' st1]
          from n rn rn' e re re' c have run: "create_self_served_crawler_pipelines mock_es_client s =
              (case r3 of
                 Inl x \<Rightarrow> (Inl x, s3)
               | Inr rc \<Rightarrow>
                   if falsy rc
                   then (Inr False, print ''Failed to create self-served crawler pipeline.'' s3)
                   else (Inr True, s3))"
            by (simp add: create_self_served_crawler_pipelines_def composite_def)
          show ?thesis
          proof (cases r3)
            case (Inl x)
            with run assms have "r = Inl x" "t = s3"
              by simp_all
            with o3 Inl mock_ensure_frame(5) [OF c st1'] mock_ensure_frame(5) [OF c st2] show ?thesis
              by auto
          next
            case rc: (Inr rc)
            show ?thesis
            proof (cases "falsy rc")
              case True
              with run rc assms show ?thesis
                by simp
            next
              case False
              with run rc assms have "r = Inr True" "t = s3"
                by simp_all
              with o3 rc False mock_ensure_frame(5) [OF c st1'] mock_ensure_frame(5) [OF c st2]
              show ?thesis
                by auto
            qed
          qed
        qed
      qed
    qed
  qed
qed


lemma mock_ensure_puts:
  assumes "setup_ingest_pipeline mock_es_client i d ps s = (r, t)"
  shows "\<exists>xs. calls t = calls s @ xs
          \<and> (\<forall>c \<in> set xs. is_create c \<longrightarrow>
                 (\<exists>k. resource_id c = Some k \<and> pipelines (remote s) k = None))"
  using assms by (auto simp: mock_ensure print_def split: option.splits)

lemma mock_absent_before:
  assumes "setup_ingest_pipeline mock_es_client i d ps s = (r, t)" and "pipelines (remote t) k = None"
  shows "pipelines (remote s) k = None"
proof (cases "pipelines (remote s) k")
  case None
  then show ?thesis .
next
  case (Some p)
  from mock_ensure_frame(4) [OF assms(1) Some] assms(2) show ?thesis
    by simp
qed

lemma mock_run_keeps_and_puts_absent:
  "(pipelines (remote s) j = Some p \<longrightarrow>
      pipelines (remote (snd (create_self_served_crawler_pipelines mock_es_client s))) j = Some p)
   \<and> endpoints (remote (snd (create_self_served_crawler_pipelines mock_es_client s))) = endpoints (remote s)
   \<and> (\<forall>c \<in> set (issued s (snd (create_self_served_crawler_pipelines mock_es_client s))).
        is_create c \<longrightarrow> (\<exists>k. resource_id c = Some k \<and> pipelines (remote s) k = None))"
proof -
  obtain r1 s1 where n: "create_normalizer_pipeline mock_es_client s = (r1, s1)"
    by fastforce
  obtain r2 s2 where e: "create_embedding_pipeline mock_es_client s1 = (r2, s2)"
    by fastforce
  obtain r3 s3 where c: "setup_ingest_pipeline mock_es_client ''self-served-crawler-pipeline''
        ''Pipeline for self-served crawler to normalize and generate embeddings''
        [JObject [(''pipeline'', JObject [(''name'', JString ''search-default-ingestion'')])],
         JObject [(''pipeline'', JObject [(''name'', JString ''es-crawler-normalizer-pipeline'')])],
         JObject [(''pipeline'', JObject [(''name'', JString ''es-crawler-embedding-pipeline'')])]]
        s2 = (r3, s3)"
    by fastforce
  note n' = n [unfolded create_normalizer_pipeline_def Let_def]
  note e' = e [unfolded create_embedding_pipeline_def Let_def]
  note stops = sequence_stops [OF n e c]
  have keep: "pipelines (remote s1) j = Some p \<and> pipelines (remote s2) j = Some p
      \<and> pipelines (remote s3) j = Some p" if "pipelines (remote s) j = Some p"
    using that mock_ensure_frame(4) [OF n'] mock_ensure_frame(4) [OF e'] mock_ensure_frame(4) [OF c]
    by blast
  have ends: "endpoints (remote s1) = endpoints (remote s)" "endpoints (remote s2) = endpoints (remote s)"
    "endpoints (remote s3) = endpoints (remote s)"
    using mock_ensure_frame(3) [OF n'] mock_ensure_frame(3) [OF e'] mock_ensure_frame(3) [OF c]
    by simp_all
  from mock_ensure_puts [OF n'] obtain xs1 where x1: "calls s1 = calls s @ xs1"
    "\<forall>c \<in> set xs1. is_create c \<longrightarrow> (\<exists>k. resource_id c = Some k \<and> pipelines (remote s) k = None)"
    by blast
  from mock_ensure_puts [OF e'] obtain xs2 where x2: "calls s2 = calls s1 @ xs2"
    "\<forall>c \<in> set xs2. is_create c \<longrightarrow> (\<exists>k. resource_id c = Some k \<and> pipelines (remote s1) k = None)"
    by blast
  from mock_ensure_puts [OF c] obtain xs3 where x3: "calls s3 = calls s2 @ xs3"
    "\<forall>c \<in> set xs3. is_create c \<longrightarrow> (\<exists>k. resource_id c = Some k \<and> pipelines (remote s2) k = None)"
    by blast
  have b1: "pipelines (remote s) k = None" if "pipelines (remote s1) k = None" for k
    using that by (rule mock_absent_before [OF n'])
  have b2: "pipelines (remote s) k = None" if "pipelines (remote s2) k = None" for k
    using that by (blast intro: b1 mock_absent_before [OF e'])
  have y2: "\<forall>c \<in> set xs2. is_create c \<longrightarrow> (\<exists>k. resource_id c = Some k \<and> pipelines (remote s) k = None)"
    using x2(2) b1 by blast
  have y3: "\<forall>c \<in> set xs3. is_create c \<longrightarrow> (\<exists>k. resource_id c = Some k \<and> pipelines (remote s) k = None)"
    using x3(2) b2 by blast
  have puts: "\<forall>c \<in> set (issued s (snd (create_self_served_crawler_pipelines mock_es_client s))).
        is_create c \<longrightarrow> (\<exists>k. resource_id c = Some k \<and> pipelines (remote s) k = None)"
    using stops
  proof (elim disjE conjE)
    assume "calls (snd (create_self_served_crawler_pipelines mock_es_client s)) = calls s1"
    then have "issued s (snd (create_self_served_crawler_pipelines mock_es_client s)) = xs1"
      by (simp add: x1 issued_def)
    with x1(2) show ?thesis
      by simp
  next
    assume "calls (snd (create_self_served_crawler_pipelines mock_es_client s)) = calls s2"
    then have "issued s (snd (create_self_served_crawler_pipelines mock_es_client s)) = xs1 @ xs2"
      by (simp add: x1 x2 issued_def)
    with x1(2) y2 show ?thesis
      by auto
  next
    assume "calls (snd (create_self_served_crawler_pipelines mock_es_client s)) = calls s3"
    then have "issued s (snd (create_self_served_crawler_pipelines mock_es_client s)) = xs1 @ xs2 @ xs3"
      by (simp add: x1 x2 x3 issued_def)
    with x1(2) y2 y3 show ?thesis
      by auto
  qed
  from stops keep ends puts show ?thesis
    by auto
qed

section \<open>Unfolding concrete runs\<close>

text \<open>
  The equations that evaluate a run on the in-memory cluster. The processor literals
  stay folded.
\<close>

lemmas run_defs = main_def get_es_client_def create_self_served_crawler_pipelines_def
  create_normalizer_pipeline_def create_embedding_pipeline_def setup_ingest_pipeline_def
  invoke_def print_def Let_def
  mock_platform_def mock_es_client_def mock_get_def start_def full_environ_def
  empty_cluster_def timing_out_def rejecting_def holding_def

section \<open>Exit status of the script\<close>

text \<open>
  Claim C1 says that the exit status is 1 whenever an exception is raised during the
  run. The script does not do that: its \<^verbatim>\<open>except\<close> clause prints the message and assigns
  \<^verbatim>\<open>success = False\<close>, but only the \<^verbatim>\<open>else\<close> clause calls \<^verbatim>\<open>exit\<close>, so after an exception
  the script ends normally with status 0. Three runs that raise and exit with 0: the
  environment lacks \<^verbatim>\<open>ES_HOST\<close> (\<open>KeyError\<close>); the cluster does not answer the ping
  (\<open>AssertionError\<close>); the existence check of the normalizer pipeline times out. The
  last conjunct is a run in which a create is rejected: that run does exit with 1.
\<close>

theorem exception_during_run_exits_zero:
  "fst (main (mock_platform (\<lambda>k. None)) (start empty_cluster)) = 0
   \<and> stdout (snd (main (mock_platform (\<lambda>k. None)) (start empty_cluster))) =
       [''Setting up self-served crawler pipelines...'',
        ''An error occurred: '' @ [CHR 0x27] @ ''ES_HOST'' @ [CHR 0x27]]
   \<and> fst (main (mock_platform full_environ) (start (empty_cluster\<lparr>alive := False\<rparr>))) = 0
   \<and> stdout (snd (main (mock_platform full_environ) (start (empty_cluster\<lparr>alive := False\<rparr>)))) =
       [''Setting up self-served crawler pipelines...'',
        ''An error occurred: Elasticsearch cluster is not reachable'']
   \<and> fst (main (mock_platform full_environ) (start (timing_out ''es-crawler-normalizer-pipeline''))) = 0
   \<and> stdout (snd (main (mock_platform full_environ) (start (timing_out ''es-crawler-normalizer-pipeline'')))) =
       [''Setting up self-served crawler pipelines...'', ''An error occurred: Connection timed out'']
   \<and> fst (main (mock_platform full_environ) (start (rejecting ''es-crawler-normalizer-pipeline''))) = 1"
  by (simp add: run_defs)

section \<open>A run against a cluster that holds nothing\<close>

text \<open>
  Claim C2 expects four create requests, the third being the create of the inference
  endpoint. Nothing in the script calls \<open>create_vertexai_embedding_inference_endpoint\<close>:
  against the empty cluster the run issues the ping and the six provisioning requests,
  of which three are creates (normalizer, embedding, composite, in this order), it
  never asks for the secret or the endpoint, and it exits with status 0. The embedding
  pipeline it creates refers to the endpoint \<open>vertexai_embeddings\<close>, which is left
  absent.
\<close>

theorem empty_cluster_run_issues_three_creates:
  "fst (main (mock_platform full_environ) (start empty_cluster)) = 0
   \<and> calls (snd (main (mock_platform full_environ) (start empty_cluster))) = Ping # provisioning_requests
   \<and> map resource_id (creates (calls (snd (main (mock_platform full_environ) (start empty_cluster))))) =
       [Some ''es-crawler-normalizer-pipeline'',
        Some ''es-crawler-embedding-pipeline'',
        Some ''self-served-crawler-pipeline'']
   \<and> length (creates (calls (snd (main (mock_platform full_environ) (start empty_cluster))))) = 3
   \<and> endpoints (remote (snd (main (mock_platform full_environ) (start empty_cluster))))
         ''vertexai_embeddings'' = None"
  by (simp add: run_defs provisioning_requests_def creates_def)

section \<open>Running the sequence twice\<close>

text \<open>
  Claim C3 says that for every cluster state a second run issues no create request.
  That fails when the cluster rejects a create: the first run returns \<open>False\<close>, the
  pipeline is still absent, and the second run sends the same create again. At the
  in-memory cluster that rejects the put of the normalizer pipeline, the second run
  issues one create request.
\<close>

theorem rerun_after_rejected_create_counterexample:
  "fst (create_self_served_crawler_pipelines mock_es_client
          (start (rejecting ''es-crawler-normalizer-pipeline''))) = Inr False
   \<and> map resource_id
        (creates
          (issued
            (snd (create_self_served_crawler_pipelines mock_es_client
                    (start (rejecting ''es-crawler-normalizer-pipeline''))))
            (snd (create_self_served_crawler_pipelines mock_es_client
                    (snd (create_self_served_crawler_pipelines mock_es_client
                            (start (rejecting ''es-crawler-normalizer-pipeline'')))))))) =
       [Some ''es-crawler-normalizer-pipeline'']"
  by (simp add: run_defs issued_def creates_def)

text \<open>
  Claim C3, amended. On the in-memory cluster, for every state, faults included: when
  the first run does not return \<open>False\<close> (no create was rejected), the run on the
  resulting state has the same outcome, \<open>True\<close> or the same exception, and issues no
  create request. And in every run, a pipeline that the cluster holds before the run
  is the same after it, and every create request names an id that the cluster did not
  hold before the run.
\<close>

theorem rerun_is_idempotent:
  "(fst (create_self_served_crawler_pipelines mock_es_client s) \<noteq> Inr False \<longrightarrow>
      fst (create_self_served_crawler_pipelines mock_es_client
             (snd (create_self_served_crawler_pipelines mock_es_client s))) =
        fst (create_self_served_crawler_pipelines mock_es_client s)
      \<and> creates (issued (snd (create_self_served_crawler_pipelines mock_es_client s))
            (snd (create_self_served_crawler_pipelines mock_es_client
                    (snd (create_self_served_crawler_pipelines mock_es_client s))))) = [])
   \<and> (pipelines (remote s) j = Some p \<longrightarrow>
        pipelines (remote (snd (create_self_served_crawler_pipelines mock_es_client s))) j = Some p)
   \<and> (\<forall>c \<in> set (issued s (snd (create_self_served_crawler_pipelines mock_es_client s))).
        is_create c \<longrightarrow> (\<exists>k. resource_id c = Some k \<and> pipelines (remote s) k = None))"
proof (intro conjI)
  show "fst (create_self_served_crawler_pipelines mock_es_client s) \<noteq> Inr False \<longrightarrow>
      fst (create_self_served_crawler_pipelines mock_es_client
             (snd (create_self_served_crawler_pipelines mock_es_client s))) =
        fst (create_self_served_crawler_pipelines mock_es_client s)
      \<and> creates (issued (snd (create_self_served_crawler_pipelines mock_es_client s))
            (snd (create_self_served_crawler_pipelines mock_es_client
                    (snd (create_self_served_crawler_pipelines mock_es_client s))))) = []"
  proof
    define r where "r = fst (create_self_served_crawler_pipelines mock_es_client s)"
    define t where "t = snd (create_self_served_crawler_pipelines mock_es_client s)"
    assume "fst (create_self_served_crawler_pipelines mock_es_client s) \<noteq> Inr False"
    then have "create_self_served_crawler_pipelines mock_es_client s = (r, t)" and "r \<noteq> Inr False"
      by (simp_all add: r_def t_def)
    then have "fst (create_self_served_crawler_pipelines mock_es_client t) = r
        \<and> creates (issued t (snd (create_self_served_crawler_pipelines mock_es_client t))) = []"
      using rerun_after_normalizer_fault [of t] rerun_after_embedding_fault [of t]
        rerun_after_composite_fault [of t] rerun_after_success [of t]
      by (auto dest!: first_run_outcome)
    then show "fst (create_self_served_crawler_pipelines mock_es_client
             (snd (create_self_served_crawler_pipelines mock_es_client s))) =
        fst (create_self_served_crawler_pipelines mock_es_client s)
      \<and> creates (issued (snd (create_self_served_crawler_pipelines mock_es_client s))
            (snd (create_self_served_crawler_pipelines mock_es_client
                    (snd (create_self_served_crawler_pipelines mock_es_client s))))) = []"
      by (simp add: r_def t_def)
  qed
next
  show "pipelines (remote s) j = Some p \<longrightarrow>
        pipelines (remote (snd (create_self_served_crawler_pipelines mock_es_client s))) j = Some p"
    using mock_run_keeps_and_puts_absent [of s j p] by blast
next
  show "\<forall>c \<in> set (issued s (snd (create_self_served_crawler_pipelines mock_es_client s))).
        is_create c \<longrightarrow> (\<exists>k. resource_id c = Some k \<and> pipelines (remote s) k = None)"
    using mock_run_keeps_and_puts_absent [of s j p] by blast
qed

text \<open>
  The amended statement at the empty in-memory cluster, where the first run creates
  the three pipelines and returns \<open>True\<close>, and at a cluster that holds the normalizer
  pipeline before the run.
\<close>

theorem rerun_is_idempotent_witness:
  "fst (create_self_served_crawler_pipelines mock_es_client (start empty_cluster)) = Inr True
   \<and> fst (create_self_served_crawler_pipelines mock_es_client
            (snd (create_self_served_crawler_pipelines mock_es_client (start empty_cluster)))) = Inr True
   \<and> creates (issued (snd (create_self_served_crawler_pipelines mock_es_client (start empty_cluster)))
         (snd (create_self_served_crawler_pipelines mock_es_client
                 (snd (create_self_served_crawler_pipelines mock_es_client (start empty_cluster)))))) = []
   \<and> pipelines (remote (start (holding ''es-crawler-normalizer-pipeline'')))
         ''es-crawler-normalizer-pipeline'' = Some (''present before the run'', [])
   \<and> pipelines (remote (snd (create_self_served_crawler_pipelines mock_es_client
                               (start (holding ''es-crawler-normalizer-pipeline'')))))
         ''es-crawler-normalizer-pipeline'' = Some (''present before the run'', [])"
proof -
  have first: "fst (create_self_served_crawler_pipelines mock_es_client (start empty_cluster)) = Inr True"
    by (simp add: run_defs)
  then have ok: "fst (create_self_served_crawler_pipelines mock_es_client (start empty_cluster)) \<noteq> Inr False"
    by simp
  have held: "pipelines (remote (start (holding ''es-crawler-normalizer-pipeline'')))
         ''es-crawler-normalizer-pipeline'' = Some (''present before the run'', [])"
    by (simp add: start_def holding_def)
  from rerun_is_idempotent [where s = "start empty_cluster", THEN conjunct1, THEN mp, OF ok]
    rerun_is_idempotent [where s = "start (holding ''es-crawler-normalizer-pipeline'')",
      THEN conjunct2, THEN conjunct1, THEN mp, OF held]
    first held
  show ?thesis
    by simp
qed

section \<open>Create exactly when absent\<close>

text \<open>
  Claim C4. For every ensure call, on a pipeline or on the inference endpoint: when
  the existence check answers not-found, exactly one create request is issued, and it
  carries exactly the definition given for the resource (the arguments of
  \<open>setup_ingest_pipeline\<close>; the seven normalizer processors and the one embedding
  processor of the two wrappers; the task type and service settings of the endpoint
  with the fetched secret); when the existence check finds the resource, no create
  request is issued and the identifier is returned. For the endpoint the existence
  check is reached only after the secret has been fetched, which is the first
  hypothesis there.
\<close>

theorem ensure_creates_once_when_absent_none_when_found:
  "(fst (ingest_get_pipeline es pid (remote s)) = Inl e \<and> is_NotFoundError e \<longrightarrow>
      creates (issued s (snd (setup_ingest_pipeline es pid d ps s))) = [PutPipeline pid d ps])
   \<and> (fst (ingest_get_pipeline es pid (remote s)) = Inr u \<longrightarrow>
      creates (issued s (snd (setup_ingest_pipeline es pid d ps s))) = []
      \<and> fst (setup_ingest_pipeline es pid d ps s) = Inr (Some pid))
   \<and> (fst (ingest_get_pipeline es ''es-crawler-normalizer-pipeline'' (remote s)) = Inl e \<and> is_NotFoundError e \<longrightarrow>
      creates (issued s (snd (create_normalizer_pipeline es s))) =
        [PutPipeline ''es-crawler-normalizer-pipeline'' ''Pipeline to normalize crawled data''
           [JOIN_HEADERS_PROCESSOR, SET_BODY_PROCESSOR, REMOVE_FIELDS_PROCESSOR, SET_DATES_PROCESSOR,
            SPLIT_URL_PROCESSOR, NORMALIZED_URL_PROCESSOR, REMOVE_TEMP_URL_PARTS_PROCESSOR]])
   \<and> (fst (ingest_get_pipeline es ''es-crawler-embedding-pipeline'' (remote s)) = Inl e \<and> is_NotFoundError e \<longrightarrow>
      creates (issued s (snd (create_embedding_pipeline es s))) =
        [PutPipeline ''es-crawler-embedding-pipeline'' ''Pipeline to generate embeddings for crawled data''
           [VERTEXAI_EMBEDDINGS_PROCESSOR]])
   \<and> (fetch_gcp_secret pf s = (Inr v, s0) \<and>
        fst (inference_get es ''text_embedding'' iid (remote s0)) = Inl e \<and> is_NotFoundError e \<longrightarrow>
      creates (issued s0 (snd (create_vertexai_embedding_inference_endpoint pf es iid s))) =
        [PutGoogleVertexAI iid ''text_embedding''
           (JObject [(''model_id'', JString ''text-embedding-005''),
                     (''service_account_json'', JString v),
                     (''location'', JString ''us-central1''),
                     (''project_id'', JString ''snippets-api-434014'')])])
   \<and> (fetch_gcp_secret pf s = (Inr v, s0) \<and>
        fst (inference_get es ''text_embedding'' iid (remote s0)) = Inr u \<longrightarrow>
      creates (issued s0 (snd (create_vertexai_embedding_inference_endpoint pf es iid s))) = []
      \<and> fst (create_vertexai_embedding_inference_endpoint pf es iid s) = Inr (Some iid))"
proof -
  have pipeline_absent: "creates (issued s (snd (setup_ingest_pipeline es i d' ps' s))) = [PutPipeline i d' ps']"
    if "fst (ingest_get_pipeline es i (remote s)) = Inl e" and "is_NotFoundError e" for i d' ps'
  proof (cases "fst (ingest_put_pipeline es i d' ps' (snd (ingest_get_pipeline es i (remote s))))")
    case (Inl e2)
    from setup_rejected [OF that Inl] show ?thesis
      by (simp add: print_def issued_append creates_def)
  next
    case (Inr a)
    from setup_created [OF that Inr] show ?thesis
      by (simp add: print_def issued_append creates_def)
  qed
  have pipeline_found: "creates (issued s (snd (setup_ingest_pipeline es pid d ps s))) = []
      \<and> fst (setup_ingest_pipeline es pid d ps s) = Inr (Some pid)"
    if "fst (ingest_get_pipeline es pid (remote s)) = Inr u"
    using setup_found [OF that] by (simp add: print_def issued_append creates_def)
  have endpoint_absent: "creates (issued s0 (snd (create_vertexai_embedding_inference_endpoint pf es iid s))) =
        [PutGoogleVertexAI iid ''text_embedding'' (vertexai_service_settings v)]"
    if "fetch_gcp_secret pf s = (Inr v, s0)"
      and "fst (inference_get es ''text_embedding'' iid (remote s0)) = Inl e" and "is_NotFoundError e"
  proof (cases "fst (inference_put_googlevertexai es iid ''text_embedding'' (vertexai_service_settings v)
               (snd (inference_get es ''text_embedding'' iid (remote s0))))")
    case (Inl e2)
    from endpoint_rejected [OF that Inl] show ?thesis
      by (simp add: print_def issued_append creates_def)
  next
    case (Inr a)
    from endpoint_created [OF that Inr] show ?thesis
      by (simp add: print_def issued_append creates_def)
  qed
  have endpoint_present: "creates (issued s0 (snd (create_vertexai_embedding_inference_endpoint pf es iid s))) = []
      \<and> fst (create_vertexai_embedding_inference_endpoint pf es iid s) = Inr (Some iid)"
    if "fetch_gcp_secret pf s = (Inr v, s0)"
      and "fst (inference_get es ''text_embedding'' iid (remote s0)) = Inr u"
    using endpoint_found [OF that] by (simp add: print_def issued_append creates_def)
  show ?thesis
    using pipeline_absent pipeline_found endpoint_absent endpoint_present
    by (simp add: create_normalizer_pipeline_def create_embedding_pipeline_def
        vertexai_service_settings_def)
qed

text \<open>
  The theorem at the in-memory cluster: the pipeline \<open>p\<close> absent from the empty
  cluster, the same pipeline in a cluster that already holds it, and the inference
  endpoint absent from the empty cluster.
\<close>

theorem ensure_creates_once_when_absent_none_when_found_witness:
  "fst (ingest_get_pipeline mock_es_client ''p'' (remote (start empty_cluster))) =
     Inl (NotFoundError ''resource_not_found_exception: p'')
   \<and> is_NotFoundError (NotFoundError ''resource_not_found_exception: p'')
   \<and> creates (issued (start empty_cluster)
         (snd (setup_ingest_pipeline mock_es_client ''p'' ''d'' [JBool True] (start empty_cluster)))) =
       [PutPipeline ''p'' ''d'' [JBool True]]
   \<and> fst (ingest_get_pipeline mock_es_client ''p'' (remote (start (holding ''p'')))) = Inr ()
   \<and> creates (issued (start (holding ''p''))
         (snd (setup_ingest_pipeline mock_es_client ''p'' ''d'' [JBool True] (start (holding ''p''))))) = []
   \<and> fst (setup_ingest_pipeline mock_es_client ''p'' ''d'' [JBool True] (start (holding ''p''))) =
       Inr (Some ''p'')
   \<and> fst (fetch_gcp_secret (mock_platform full_environ) (start empty_cluster)) = Inr ''{}''
   \<and> creates (issued (snd (fetch_gcp_secret (mock_platform full_environ) (start empty_cluster)))
         (snd (create_vertexai_embedding_inference_endpoint (mock_platform full_environ) mock_es_client
                 ''vertexai_embeddings'' (start empty_cluster)))) =
       [PutGoogleVertexAI ''vertexai_embeddings'' ''text_embedding''
          (JObject [(''model_id'', JString ''text-embedding-005''),
                    (''service_account_json'', JString ''{}''),
                    (''location'', JString ''us-central1''),
                    (''project_id'', JString ''snippets-api-434014'')])]"
proof -
  have absent: "fst (ingest_get_pipeline mock_es_client ''p'' (remote (start empty_cluster))) =
      Inl (NotFoundError ''resource_not_found_exception: p'')
      \<and> is_NotFoundError (NotFoundError ''resource_not_found_exception: p'')"
    by code_simp
  have found: "fst (ingest_get_pipeline mock_es_client ''p'' (remote (start (holding ''p'')))) = Inr ()"
    by code_simp
  have secret: "fst (fetch_gcp_secret (mock_platform full_environ) (start empty_cluster)) = Inr ''{}''"
    by code_simp
  then have secret': "fetch_gcp_secret (mock_platform full_environ) (start empty_cluster) =
      (Inr ''{}'', snd (fetch_gcp_secret (mock_platform full_environ) (start empty_cluster)))"
    by (simp add: prod_eq_iff)
  have no_endpoint: "fst (inference_get mock_es_client ''text_embedding'' ''vertexai_embeddings''
        (remote (snd (fetch_gcp_secret (mock_platform full_environ) (start empty_cluster))))) =
      Inl (NotFoundError ''resource_not_found_exception: vertexai_embeddings'')
      \<and> is_NotFoundError (NotFoundError ''resource_not_found_exception: vertexai_embeddings'')"
    by code_simp
  have a: "creates (issued (start empty_cluster)
         (snd (setup_ingest_pipeline mock_es_client ''p'' ''d'' [JBool True] (start empty_cluster)))) =
       [PutPipeline ''p'' ''d'' [JBool True]]"
    using absent ensure_creates_once_when_absent_none_when_found
        [where es = mock_es_client and pid = "''p''" and s = "start empty_cluster" and d = "''d''"
           and ps = "[JBool True]" and e = "NotFoundError ''resource_not_found_exception: p''",
         THEN conjunct1]
    by simp
  have b: "creates (issued (start (holding ''p''))
         (snd (setup_ingest_pipeline mock_es_client ''p'' ''d'' [JBool True] (start (holding ''p''))))) = []
      \<and> fst (setup_ingest_pipeline mock_es_client ''p'' ''d'' [JBool True] (start (holding ''p''))) =
       Inr (Some ''p'')"
    using found ensure_creates_once_when_absent_none_when_found
        [where es = mock_es_client and pid = "''p''" and d = "''d''" and ps = "[JBool True]" and u = "()"
           and s = "start (holding ''p'')", THEN conjunct2, THEN conjunct1]
    by simp
  have c: "creates (issued (snd (fetch_gcp_secret (mock_platform full_environ) (start empty_cluster)))
         (snd (create_vertexai_embedding_inference_endpoint (mock_platform full_environ) mock_es_client
                 ''vertexai_embeddings'' (start empty_cluster)))) =
       [PutGoogleVertexAI ''vertexai_embeddings'' ''text_embedding''
          (JObject [(''model_id'', JString ''text-embedding-005''),
                    (''service_account_json'', JString ''{}''),
                    (''location'', JString ''us-central1''),
                    (''project_id'', JString ''snippets-api-434014'')])]"
    using secret' no_endpoint ensure_creates_once_when_absent_none_when_found
        [where es = mock_es_client and pf = "mock_platform full_environ" and s = "start empty_cluster"
           and v = "''{}''" and iid = "''vertexai_embeddings''"
           and e = "NotFoundError ''resource_not_found_exception: vertexai_embeddings''"
           and ?s0.0 = "snd (fetch_gcp_secret (mock_platform full_environ) (start empty_cluster))",
         THEN conjunct2, THEN conjunct2, THEN conjunct2, THEN conjunct2, THEN conjunct1]
    by simp
  show ?thesis
    using absent found secret a b c by simp
qed

section \<open>An existence check that fails is not an absence\<close>

text \<open>
  Claim C5. When the existence check of an ensure call raises anything other than
  not-found, the ensure call raises that same exception, the existence check is the
  only request it issues, and no create request is issued. For the endpoint this is
  the existence check made after the secret has been fetched.
\<close>

theorem existence_check_error_propagates:
  "(fst (ingest_get_pipeline es pid (remote s)) = Inl e \<and> \<not> is_NotFoundError e \<longrightarrow>
      fst (setup_ingest_pipeline es pid d ps s) = Inl e
      \<and> issued s (snd (setup_ingest_pipeline es pid d ps s)) = [GetPipeline pid]
      \<and> creates (issued s (snd (setup_ingest_pipeline es pid d ps s))) = [])
   \<and> (fetch_gcp_secret pf s = (Inr v, t)
        \<and> fst (inference_get es ''text_embedding'' iid (remote t)) = Inl e \<and> \<not> is_NotFoundError e \<longrightarrow>
      fst (create_vertexai_embedding_inference_endpoint pf es iid s) = Inl e
      \<and> issued t (snd (create_vertexai_embedding_inference_endpoint pf es iid s)) =
          [InferenceGet ''text_embedding'' iid]
      \<and> creates (issued t (snd (create_vertexai_embedding_inference_endpoint pf es iid s))) = [])"
proof (intro conjI impI)
  assume a: "fst (ingest_get_pipeline es pid (remote s)) = Inl e \<and> \<not> is_NotFoundError e"
  then have run: "setup_ingest_pipeline es pid d ps s =
      (Inl e, s\<lparr>remote := snd (ingest_get_pipeline es pid (remote s)),
                 calls := calls s @ [GetPipeline pid]\<rparr>)"
    by (simp add: setup_raised)
  show "fst (setup_ingest_pipeline es pid d ps s) = Inl e"
    by (simp add: run)
  show "issued s (snd (setup_ingest_pipeline es pid d ps s)) = [GetPipeline pid]"
    by (simp add: run issued_append)
  then show "creates (issued s (snd (setup_ingest_pipeline es pid d ps s))) = []"
    by (simp add: creates_def)
next
  assume b: "fetch_gcp_secret pf s = (Inr v, t)
        \<and> fst (inference_get es ''text_embedding'' iid (remote t)) = Inl e \<and> \<not> is_NotFoundError e"
  then have run: "create_vertexai_embedding_inference_endpoint pf es iid s =
      (Inl e, t\<lparr>remote := snd (inference_get es ''text_embedding'' iid (remote t)),
                 calls := calls t @ [InferenceGet ''text_embedding'' iid]\<rparr>)"
    by (simp add: endpoint_raised)
  show "fst (create_vertexai_embedding_inference_endpoint pf es iid s) = Inl e"
    by (simp add: run)
  show "issued t (snd (create_vertexai_embedding_inference_endpoint pf es iid s)) =
          [InferenceGet ''text_embedding'' iid]"
    by (simp add: run issued_append)
  then show "creates (issued t (snd (create_vertexai_embedding_inference_endpoint pf es iid s))) = []"
    by (simp add: creates_def)
qed

text \<open>
  The theorem at an in-memory cluster whose existence check times out, for a pipeline
  and for the inference endpoint.
\<close>

theorem existence_check_error_propagates_witness:
  "fst (ingest_get_pipeline mock_es_client ''p'' (remote (start (timing_out ''p'')))) =
     Inl (Exception ''Connection timed out'')
   \<and> \<not> is_NotFoundError (Exception ''Connection timed out'')
   \<and> fst (setup_ingest_pipeline mock_es_client ''p'' ''d'' [] (start (timing_out ''p''))) =
     Inl (Exception ''Connection timed out'')
   \<and> issued (start (timing_out ''p''))
         (snd (setup_ingest_pipeline mock_es_client ''p'' ''d'' [] (start (timing_out ''p'')))) =
     [GetPipeline ''p'']
   \<and> fst (fetch_gcp_secret (mock_platform full_environ) (start (timing_out ''vertexai_embeddings''))) = Inr ''{}''
   \<and> fst (create_vertexai_embedding_inference_endpoint (mock_platform full_environ) mock_es_client
             ''vertexai_embeddings'' (start (timing_out ''vertexai_embeddings''))) =
     Inl (Exception ''Connection timed out'')
   \<and> creates (issued (snd (fetch_gcp_secret (mock_platform full_environ)
                              (start (timing_out ''vertexai_embeddings''))))
         (snd (create_vertexai_embedding_inference_endpoint (mock_platform full_environ) mock_es_client
                 ''vertexai_embeddings'' (start (timing_out ''vertexai_embeddings''))))) = []"
proof -
  have g: "fst (ingest_get_pipeline mock_es_client ''p'' (remote (start (timing_out ''p'')))) =
      Inl (Exception ''Connection timed out'')
      \<and> \<not> is_NotFoundError (Exception ''Connection timed out'')"
    by code_simp
  have f: "fst (fetch_gcp_secret (mock_platform full_environ) (start (timing_out ''vertexai_embeddings''))) =
      Inr ''{}''"
    by code_simp
  then have f': "fetch_gcp_secret (mock_platform full_environ) (start (timing_out ''vertexai_embeddings'')) =
      (Inr ''{}'', snd (fetch_gcp_secret (mock_platform full_environ)
                          (start (timing_out ''vertexai_embeddings''))))"
    by (simp add: prod_eq_iff)
  have i: "fst (inference_get mock_es_client ''text_embedding'' ''vertexai_embeddings''
             (remote (snd (fetch_gcp_secret (mock_platform full_environ)
                             (start (timing_out ''vertexai_embeddings'')))))) =
      Inl (Exception ''Connection timed out'')"
    by code_simp
  have p: "fst (setup_ingest_pipeline mock_es_client ''p'' ''d'' [] (start (timing_out ''p''))) =
        Inl (Exception ''Connection timed out'')
      \<and> issued (start (timing_out ''p''))
            (snd (setup_ingest_pipeline mock_es_client ''p'' ''d'' [] (start (timing_out ''p'')))) =
          [GetPipeline ''p'']"
    using g existence_check_error_propagates [where es = mock_es_client and pid = "''p''"
        and s = "start (timing_out ''p'')" and e = "Exception ''Connection timed out''"
        and d = "''d''" and ps = "[]", THEN conjunct1]
    by simp
  have q: "fst (create_vertexai_embedding_inference_endpoint (mock_platform full_environ) mock_es_client
             ''vertexai_embeddings'' (start (timing_out ''vertexai_embeddings''))) =
        Inl (Exception ''Connection timed out'')
      \<and> creates (issued (snd (fetch_gcp_secret (mock_platform full_environ)
                              (start (timing_out ''vertexai_embeddings''))))
         (snd (create_vertexai_embedding_inference_endpoint (mock_platform full_environ) mock_es_client
                 ''vertexai_embeddings'' (start (timing_out ''vertexai_embeddings''))))) = []"
    using f' i existence_check_error_propagates [where es = mock_es_client and pf = "mock_platform full_environ"
        and s = "start (timing_out ''vertexai_embeddings'')" and e = "Exception ''Connection timed out''"
        and v = "''{}''" and iid = "''vertexai_embeddings''"
        and t = "snd (fetch_gcp_secret (mock_platform full_environ)
                        (start (timing_out ''vertexai_embeddings'')))", THEN conjunct2]
    by (simp add: creates_def)
  show ?thesis
    using g f p q by simp
qed

section \<open>A rejected create becomes the failure signal\<close>

text \<open>
  Claim C6. When the existence check of an ensure call answers not-found and the
  create request that follows raises any exception, the ensure call does not raise:
  it returns \<open>None\<close>, and the one line it prints is the error message naming the
  resource and the exception.
\<close>

theorem create_error_becomes_failure_signal:
  "(fst (ingest_get_pipeline es pid (remote s)) = Inl e \<and> is_NotFoundError e
        \<and> fst (ingest_put_pipeline es pid d ps (snd (ingest_get_pipeline es pid (remote s)))) = Inl x \<longrightarrow>
      fst (setup_ingest_pipeline es pid d ps s) = Inr None
      \<and> stdout (snd (setup_ingest_pipeline es pid d ps s)) =
          stdout s @ [''Error creating ingest pipeline '' @ [CHR 0x27] @ pid @ [CHR 0x27] @ '': '' @ str_exn x])
   \<and> (fetch_gcp_secret pf s = (Inr v, t)
        \<and> fst (inference_get es ''text_embedding'' iid (remote t)) = Inl e \<and> is_NotFoundError e
        \<and> fst (inference_put_googlevertexai es iid ''text_embedding'' (vertexai_service_settings v)
                 (snd (inference_get es ''text_embedding'' iid (remote t)))) = Inl x \<longrightarrow>
      fst (create_vertexai_embedding_inference_endpoint pf es iid s) = Inr None
      \<and> stdout (snd (create_vertexai_embedding_inference_endpoint pf es iid s)) =
          stdout t @ [''Error creating inference endpoint '' @ [CHR 0x27] @ iid @ [CHR 0x27] @ '': '' @ str_exn x])"
proof (intro conjI impI)
  assume a: "fst (ingest_get_pipeline es pid (remote s)) = Inl e \<and> is_NotFoundError e
        \<and> fst (ingest_put_pipeline es pid d ps (snd (ingest_get_pipeline es pid (remote s)))) = Inl x"
  then have run: "setup_ingest_pipeline es pid d ps s =
      (Inr None,
       print (''Error creating ingest pipeline '' @ [CHR 0x27] @ pid @ [CHR 0x27] @ '': '' @ str_exn x)
         (s\<lparr>remote := snd (ingest_put_pipeline es pid d ps (snd (ingest_get_pipeline es pid (remote s)))),
            calls := calls s @ [GetPipeline pid, PutPipeline pid d ps]\<rparr>))"
    using setup_rejected [of es pid s e d ps x] by blast
  show "fst (setup_ingest_pipeline es pid d ps s) = Inr None"
    by (simp add: run)
  show "stdout (snd (setup_ingest_pipeline es pid d ps s)) =
          stdout s @ [''Error creating ingest pipeline '' @ [CHR 0x27] @ pid @ [CHR 0x27] @ '': '' @ str_exn x]"
    by (simp add: run print_def)
next
  assume b: "fetch_gcp_secret pf s = (Inr v, t)
        \<and> fst (inference_get es ''text_embedding'' iid (remote t)) = Inl e \<and> is_NotFoundError e
        \<and> fst (inference_put_googlevertexai es iid ''text_embedding'' (vertexai_service_settings v)
                 (snd (inference_get es ''text_embedding'' iid (remote t)))) = Inl x"
  then have run: "create_vertexai_embedding_inference_endpoint pf es iid s =
      (Inr None,
       print (''Error creating inference endpoint '' @ [CHR 0x27] @ iid @ [CHR 0x27] @ '': '' @ str_exn x)
         (t\<lparr>remote := snd (inference_put_googlevertexai es iid ''text_embedding'' (vertexai_service_settings v)
                             (snd (inference_get es ''text_embedding'' iid (remote t)))),
            calls := calls t @ [InferenceGet ''text_embedding'' iid,
               PutGoogleVertexAI iid ''text_embedding'' (vertexai_service_settings v)]\<rparr>))"
    using endpoint_rejected [of pf s v t es iid e x] by blast
  show "fst (create_vertexai_embedding_inference_endpoint pf es iid s) = Inr None"
    by (simp add: run)
  show "stdout (snd (create_vertexai_embedding_inference_endpoint pf es iid s)) =
          stdout t @ [''Error creating inference endpoint '' @ [CHR 0x27] @ iid @ [CHR 0x27] @ '': '' @ str_exn x]"
    by (simp add: run print_def)
qed

text \<open>
  The theorem at an in-memory cluster that rejects the put, for a pipeline and for
  the inference endpoint.
\<close>

theorem create_error_becomes_failure_signal_witness:
  "fst (ingest_get_pipeline mock_es_client ''p'' (remote (start (rejecting ''p'')))) =
     Inl (NotFoundError ''resource_not_found_exception: p'')
   \<and> is_NotFoundError (NotFoundError ''resource_not_found_exception: p'')
   \<and> fst (ingest_put_pipeline mock_es_client ''p'' ''d'' []
            (snd (ingest_get_pipeline mock_es_client ''p'' (remote (start (rejecting ''p'')))))) =
     Inl (Exception ''security_exception: action is unauthorized'')
   \<and> fst (setup_ingest_pipeline mock_es_client ''p'' ''d'' [] (start (rejecting ''p''))) = Inr None
   \<and> stdout (snd (setup_ingest_pipeline mock_es_client ''p'' ''d'' [] (start (rejecting ''p'')))) =
     [''Error creating ingest pipeline 'p': security_exception: action is unauthorized'']
   \<and> fst (create_vertexai_embedding_inference_endpoint (mock_platform full_environ) mock_es_client
            ''vertexai_embeddings'' (start (rejecting ''vertexai_embeddings''))) = Inr None"
proof -
  have g: "fst (ingest_get_pipeline mock_es_client ''p'' (remote (start (rejecting ''p'')))) =
      Inl (NotFoundError ''resource_not_found_exception: p'')
      \<and> is_NotFoundError (NotFoundError ''resource_not_found_exception: p'')
      \<and> fst (ingest_put_pipeline mock_es_client ''p'' ''d'' []
            (snd (ingest_get_pipeline mock_es_client ''p'' (remote (start (rejecting ''p'')))))) =
        Inl (Exception ''security_exception: action is unauthorized'')"
    by code_simp
  have o: "stdout (start (rejecting ''p'')) = []"
    by (simp add: start_def)
  have p: "fst (setup_ingest_pipeline mock_es_client ''p'' ''d'' [] (start (rejecting ''p''))) = Inr None
      \<and> stdout (snd (setup_ingest_pipeline mock_es_client ''p'' ''d'' [] (start (rejecting ''p'')))) =
        [''Error creating ingest pipeline 'p': security_exception: action is unauthorized'']"
    using g o create_error_becomes_failure_signal [where es = mock_es_client and pid = "''p''"
        and s = "start (rejecting ''p'')" and d = "''d''" and ps = "[]"
        and e = "NotFoundError ''resource_not_found_exception: p''"
        and x = "Exception ''security_exception: action is unauthorized''", THEN conjunct1]
    by simp
  have f: "fst (fetch_gcp_secret (mock_platform full_environ) (start (rejecting ''vertexai_embeddings''))) =
      Inr ''{}''"
    by code_simp
  then have f': "fetch_gcp_secret (mock_platform full_environ) (start (rejecting ''vertexai_embeddings'')) =
      (Inr ''{}'', snd (fetch_gcp_secret (mock_platform full_environ)
                          (start (rejecting ''vertexai_embeddings''))))"
    by (simp add: prod_eq_iff)
  have i: "fst (inference_get mock_es_client ''text_embedding'' ''vertexai_embeddings''
             (remote (snd (fetch_gcp_secret (mock_platform full_environ)
                             (start (rejecting ''vertexai_embeddings'')))))) =
        Inl (NotFoundError ''resource_not_found_exception: vertexai_embeddings'')
      \<and> is_NotFoundError (NotFoundError ''resource_not_found_exception: vertexai_embeddings'')
      \<and> fst (inference_put_googlevertexai mock_es_client ''vertexai_embeddings'' ''text_embedding''
              (vertexai_service_settings ''{}'')
              (snd (inference_get mock_es_client ''text_embedding'' ''vertexai_embeddings''
                      (remote (snd (fetch_gcp_secret (mock_platform full_environ)
                                      (start (rejecting ''vertexai_embeddings'')))))))) =
        Inl (Exception ''security_exception: action is unauthorized'')"
    by code_simp
  have q: "fst (create_vertexai_embedding_inference_endpoint (mock_platform full_environ) mock_es_client
            ''vertexai_embeddings'' (start (rejecting ''vertexai_embeddings''))) = Inr None"
    using f' i create_error_becomes_failure_signal [where es = mock_es_client
        and pf = "mock_platform full_environ" and s = "start (rejecting ''vertexai_embeddings'')"
        and v = "''{}''" and iid = "''vertexai_embeddings''"
        and e = "NotFoundError ''resource_not_found_exception: vertexai_embeddings''"
        and x = "Exception ''security_exception: action is unauthorized''"
        and t = "snd (fetch_gcp_secret (mock_platform full_environ)
                        (start (rejecting ''vertexai_embeddings'')))", THEN conjunct2]
    by simp
  show ?thesis
    using g p q by simp
qed

section \<open>Fail-fast sequencing\<close>

text \<open>
  Claim C7. When the normalizer ensure call returns the failure signal, the sequence
  reports failure and issues nothing after that call: the requests of the whole run
  are the existence check and the put of the normalizer, and none names the embedding
  or the composite pipeline. When the normalizer succeeds and the embedding ensure
  call returns the failure signal, the sequence reports failure, nothing is issued
  after the embedding call, and no request names the composite pipeline.
\<close>

theorem fail_fast_sequence:
  "(create_normalizer_pipeline es s = (Inr rn, sn) \<and> falsy rn \<longrightarrow>
      fst (create_self_served_crawler_pipelines es s) = Inr False
      \<and> calls (snd (create_self_served_crawler_pipelines es s)) = calls sn
      \<and> issued s (snd (create_self_served_crawler_pipelines es s)) =
          [GetPipeline ''es-crawler-normalizer-pipeline'',
           PutPipeline ''es-crawler-normalizer-pipeline'' ''Pipeline to normalize crawled data''
             [JOIN_HEADERS_PROCESSOR, SET_BODY_PROCESSOR, REMOVE_FIELDS_PROCESSOR, SET_DATES_PROCESSOR,
              SPLIT_URL_PROCESSOR, NORMALIZED_URL_PROCESSOR, REMOVE_TEMP_URL_PARTS_PROCESSOR]]
      \<and> filter (\<lambda>c. resource_id c = Some ''es-crawler-embedding-pipeline''
                     \<or> resource_id c = Some ''self-served-crawler-pipeline'')
            (issued s (snd (create_self_served_crawler_pipelines es s))) = [])
   \<and> (create_normalizer_pipeline es s = (Inr rn, sn) \<and> \<not> falsy rn
        \<and> create_embedding_pipeline es sn = (Inr re, se) \<and> falsy re \<longrightarrow>
      fst (create_self_served_crawler_pipelines es s) = Inr False
      \<and> calls (snd (create_self_served_crawler_pipelines es s)) = calls se
      \<and> issued sn (snd (create_self_served_crawler_pipelines es s)) =
          [GetPipeline ''es-crawler-embedding-pipeline'',
           PutPipeline ''es-crawler-embedding-pipeline'' ''Pipeline to generate embeddings for crawled data''
             [VERTEXAI_EMBEDDINGS_PROCESSOR]]
      \<and> filter (\<lambda>c. resource_id c = Some ''self-served-crawler-pipeline'')
            (issued s (snd (create_self_served_crawler_pipelines es s))) = [])"
proof (intro conjI impI)
  assume a: "create_normalizer_pipeline es s = (Inr rn, sn) \<and> falsy rn"
  then have run: "create_self_served_crawler_pipelines es s =
      (Inr False, print ''Failed to create normalizer pipeline.'' sn)"
    by (simp add: create_self_served_crawler_pipelines_def)
  from a have "calls sn = calls s @
      [GetPipeline ''es-crawler-normalizer-pipeline'',
       PutPipeline ''es-crawler-normalizer-pipeline'' ''Pipeline to normalize crawled data''
         [JOIN_HEADERS_PROCESSOR, SET_BODY_PROCESSOR, REMOVE_FIELDS_PROCESSOR, SET_DATES_PROCESSOR,
          SPLIT_URL_PROCESSOR, NORMALIZED_URL_PROCESSOR, REMOVE_TEMP_URL_PARTS_PROCESSOR]]"
    by (auto simp: create_normalizer_pipeline_def dest: setup_falsy_calls)
  then have new: "issued s (snd (create_self_served_crawler_pipelines es s)) =
      [GetPipeline ''es-crawler-normalizer-pipeline'',
       PutPipeline ''es-crawler-normalizer-pipeline'' ''Pipeline to normalize crawled data''
         [JOIN_HEADERS_PROCESSOR, SET_BODY_PROCESSOR, REMOVE_FIELDS_PROCESSOR, SET_DATES_PROCESSOR,
          SPLIT_URL_PROCESSOR, NORMALIZED_URL_PROCESSOR, REMOVE_TEMP_URL_PARTS_PROCESSOR]]"
    by (simp add: run issued_append)
  show "fst (create_self_served_crawler_pipelines es s) = Inr False"
    and "calls (snd (create_self_served_crawler_pipelines es s)) = calls sn"
    by (simp_all add: run)
  show "issued s (snd (create_self_served_crawler_pipelines es s)) =
      [GetPipeline ''es-crawler-normalizer-pipeline'',
       PutPipeline ''es-crawler-normalizer-pipeline'' ''Pipeline to normalize crawled data''
         [JOIN_HEADERS_PROCESSOR, SET_BODY_PROCESSOR, REMOVE_FIELDS_PROCESSOR, SET_DATES_PROCESSOR,
          SPLIT_URL_PROCESSOR, NORMALIZED_URL_PROCESSOR, REMOVE_TEMP_URL_PARTS_PROCESSOR]]"
    by (rule new)
  show "filter (\<lambda>c. resource_id c = Some ''es-crawler-embedding-pipeline''
                     \<or> resource_id c = Some ''self-served-crawler-pipeline'')
            (issued s (snd (create_self_served_crawler_pipelines es s))) = []"
    by (simp add: new)
next
  assume b: "create_normalizer_pipeline es s = (Inr rn, sn) \<and> \<not> falsy rn
        \<and> create_embedding_pipeline es sn = (Inr re, se) \<and> falsy re"
  then have run: "create_self_served_crawler_pipelines es s =
      (Inr False, print ''Failed to create embedding pipeline.'' se)"
    by (simp add: create_self_served_crawler_pipelines_def)
  from b have c2: "calls se = calls sn @
      [GetPipeline ''es-crawler-embedding-pipeline'',
       PutPipeline ''es-crawler-embedding-pipeline'' ''Pipeline to generate embeddings for crawled data''
         [VERTEXAI_EMBEDDINGS_PROCESSOR]]"
    by (auto simp: create_embedding_pipeline_def dest: setup_falsy_calls)
  from b have c1: "calls sn = calls s @ [GetPipeline ''es-crawler-normalizer-pipeline'']
      \<or> calls sn = calls s @
          [GetPipeline ''es-crawler-normalizer-pipeline'',
           PutPipeline ''es-crawler-normalizer-pipeline'' ''Pipeline to normalize crawled data''
             [JOIN_HEADERS_PROCESSOR, SET_BODY_PROCESSOR, REMOVE_FIELDS_PROCESSOR, SET_DATES_PROCESSOR,
              SPLIT_URL_PROCESSOR, NORMALIZED_URL_PROCESSOR, REMOVE_TEMP_URL_PARTS_PROCESSOR]]"
    by (auto simp: create_normalizer_pipeline_def dest: setup_calls_cases)
  show "fst (create_self_served_crawler_pipelines es s) = Inr False"
    and "calls (snd (create_self_served_crawler_pipelines es s)) = calls se"
    by (simp_all add: run)
  show "issued sn (snd (create_self_served_crawler_pipelines es s)) =
      [GetPipeline ''es-crawler-embedding-pipeline'',
       PutPipeline ''es-crawler-embedding-pipeline'' ''Pipeline to generate embeddings for crawled data''
         [VERTEXAI_EMBEDDINGS_PROCESSOR]]"
    by (simp add: run c2 issued_append)
  from c1 show "filter (\<lambda>c. resource_id c = Some ''self-served-crawler-pipeline'')
            (issued s (snd (create_self_served_crawler_pipelines es s))) = []"
  proof
    assume "calls sn = calls s @ [GetPipeline ''es-crawler-normalizer-pipeline'']"
    then show ?thesis
      by (simp add: run c2 issued_def)
  next
    assume "calls sn = calls s @
          [GetPipeline ''es-crawler-normalizer-pipeline'',
           PutPipeline ''es-crawler-normalizer-pipeline'' ''Pipeline to normalize crawled data''
             [JOIN_HEADERS_PROCESSOR, SET_BODY_PROCESSOR, REMOVE_FIELDS_PROCESSOR, SET_DATES_PROCESSOR,
              SPLIT_URL_PROCESSOR, NORMALIZED_URL_PROCESSOR, REMOVE_TEMP_URL_PARTS_PROCESSOR]]"
    then show ?thesis
      by (simp add: run c2 issued_def)
  qed
qed

text \<open>
  The theorem at two in-memory clusters: one rejects the put of the normalizer, the
  other the put of the embedding pipeline.
\<close>

theorem fail_fast_sequence_witness:
  "fst (create_normalizer_pipeline mock_es_client (start (rejecting ''es-crawler-normalizer-pipeline''))) = Inr None
   \<and> falsy None
   \<and> fst (create_self_served_crawler_pipelines mock_es_client
             (start (rejecting ''es-crawler-normalizer-pipeline''))) = Inr False
   \<and> filter (\<lambda>c. resource_id c = Some ''es-crawler-embedding-pipeline''
                  \<or> resource_id c = Some ''self-served-crawler-pipeline'')
         (issued (start (rejecting ''es-crawler-normalizer-pipeline''))
            (snd (create_self_served_crawler_pipelines mock_es_client
                    (start (rejecting ''es-crawler-normalizer-pipeline''))))) = []
   \<and> fst (create_embedding_pipeline mock_es_client
             (snd (create_normalizer_pipeline mock_es_client
                     (start (rejecting ''es-crawler-embedding-pipeline''))))) = Inr None
   \<and> fst (create_self_served_crawler_pipelines mock_es_client
             (start (rejecting ''es-crawler-embedding-pipeline''))) = Inr False
   \<and> filter (\<lambda>c. resource_id c = Some ''self-served-crawler-pipeline'')
         (issued (start (rejecting ''es-crawler-embedding-pipeline''))
            (snd (create_self_served_crawler_pipelines mock_es_client
                    (start (rejecting ''es-crawler-embedding-pipeline''))))) = []"
proof -
  have n: "fst (create_normalizer_pipeline mock_es_client
                  (start (rejecting ''es-crawler-normalizer-pipeline''))) = Inr None"
    by code_simp
  then have n': "create_normalizer_pipeline mock_es_client (start (rejecting ''es-crawler-normalizer-pipeline'')) =
      (Inr None, snd (create_normalizer_pipeline mock_es_client
                        (start (rejecting ''es-crawler-normalizer-pipeline''))))"
    by (simp add: prod_eq_iff)
  have m: "fst (create_normalizer_pipeline mock_es_client
                  (start (rejecting ''es-crawler-embedding-pipeline''))) =
             Inr (Some ''es-crawler-normalizer-pipeline'')"
    by code_simp
  then have m': "create_normalizer_pipeline mock_es_client (start (rejecting ''es-crawler-embedding-pipeline'')) =
      (Inr (Some ''es-crawler-normalizer-pipeline''),
       snd (create_normalizer_pipeline mock_es_client (start (rejecting ''es-crawler-embedding-pipeline''))))"
    by (simp add: prod_eq_iff)
  have e: "fst (create_embedding_pipeline mock_es_client
             (snd (create_normalizer_pipeline mock_es_client
                     (start (rejecting ''es-crawler-embedding-pipeline''))))) = Inr None"
    by code_simp
  then have e': "create_embedding_pipeline mock_es_client
             (snd (create_normalizer_pipeline mock_es_client
                     (start (rejecting ''es-crawler-embedding-pipeline'')))) =
      (Inr None, snd (create_embedding_pipeline mock_es_client
             (snd (create_normalizer_pipeline mock_es_client
                     (start (rejecting ''es-crawler-embedding-pipeline''))))))"
    by (simp add: prod_eq_iff)
  show ?thesis
    using n e
      fail_fast_sequence [where es = mock_es_client and rn = None
        and s = "start (rejecting ''es-crawler-normalizer-pipeline'')"]
      fail_fast_sequence [where es = mock_es_client and rn = "Some ''es-crawler-normalizer-pipeline''"
        and re = None and s = "start (rejecting ''es-crawler-embedding-pipeline'')"]
      n' m' e'
    by simp
qed

section \<open>The secret is validated before the endpoint is touched\<close>

text \<open>
  Claim C8. \<open>fetch_gcp_secret\<close> returns a string only when that string is the payload
  the secret store returned and \<^verbatim>\<open>json.loads\<close> accepts it. When \<^verbatim>\<open>json.loads\<close> raises on
  the payload, \<open>fetch_gcp_secret\<close> raises (for a \<open>JSONDecodeError\<close>, the exception
  with the message "Secret is not a valid JSON string"), and then
  \<open>create_vertexai_embedding_inference_endpoint\<close> raises the same exception having
  issued the secret request only: neither the existence check nor the put of the
  endpoint is attempted.
\<close>

theorem secret_validated_before_endpoint_requests:
  "(fst (fetch_gcp_secret pf s) = Inr v \<longrightarrow>
      fst (access_secret_version pf
             ''projects/rag-query-analytics/secrets/snippets-api-project-service-account-json/versions/latest''
             (remote s)) = Inr v
      \<and> (\<exists>j. json_loads pf v = Inr j))
   \<and> (fst (access_secret_version pf
             ''projects/rag-query-analytics/secrets/snippets-api-project-service-account-json/versions/latest''
             (remote s)) = Inr v
        \<and> json_loads pf v = Inl e \<longrightarrow>
      (\<exists>x. fst (fetch_gcp_secret pf s) = Inl x
           \<and> fst (create_vertexai_embedding_inference_endpoint pf es iid s) = Inl x)
      \<and> (is_JSONDecodeError e \<longrightarrow>
           fst (fetch_gcp_secret pf s) = Inl (Exception ''Secret is not a valid JSON string''))
      \<and> issued s (snd (create_vertexai_embedding_inference_endpoint pf es iid s)) =
          [AccessSecretVersion
             ''projects/rag-query-analytics/secrets/snippets-api-project-service-account-json/versions/latest''])"
proof (intro conjI impI)
  assume "fst (fetch_gcp_secret pf s) = Inr v"
  then show "fst (access_secret_version pf
             ''projects/rag-query-analytics/secrets/snippets-api-project-service-account-json/versions/latest''
             (remote s)) = Inr v"
    and "\<exists>j. json_loads pf v = Inr j"
    by (auto simp: fetch_gcp_secret_def secret_version_path_def invoke_eq Let_def
        split: sum.splits if_splits)
next
  assume a: "fst (access_secret_version pf
             ''projects/rag-query-analytics/secrets/snippets-api-project-service-account-json/versions/latest''
             (remote s)) = Inr v
        \<and> json_loads pf v = Inl e"
  define x where "x = (if is_JSONDecodeError e then Exception ''Secret is not a valid JSON string'' else e)"
  define t where "t = s\<lparr>remote := snd (access_secret_version pf
             ''projects/rag-query-analytics/secrets/snippets-api-project-service-account-json/versions/latest''
             (remote s)),
        calls := calls s @ [AccessSecretVersion
             ''projects/rag-query-analytics/secrets/snippets-api-project-service-account-json/versions/latest'']\<rparr>"
  from a have fetch: "fetch_gcp_secret pf s = (Inl x, t)"
    by (simp add: fetch_gcp_secret_def secret_version_path_def invoke_eq Let_def x_def t_def)
  then have run: "create_vertexai_embedding_inference_endpoint pf es iid s = (Inl x, t)"
    by (rule endpoint_secret_raised)
  show "\<exists>x. fst (fetch_gcp_secret pf s) = Inl x
           \<and> fst (create_vertexai_embedding_inference_endpoint pf es iid s) = Inl x"
    by (simp add: fetch run)
  show "fst (fetch_gcp_secret pf s) = Inl (Exception ''Secret is not a valid JSON string'')"
    if "is_JSONDecodeError e"
    using that by (simp add: fetch x_def)
  show "issued s (snd (create_vertexai_embedding_inference_endpoint pf es iid s)) =
          [AccessSecretVersion
             ''projects/rag-query-analytics/secrets/snippets-api-project-service-account-json/versions/latest'']"
    by (simp add: run t_def issued_append)
qed

text \<open>
  The theorem on the in-memory cluster: with the payload \<open>{}\<close> the secret is returned,
  and with a payload that is not JSON the endpoint step raises after the secret
  request alone.
\<close>

theorem secret_validated_before_endpoint_requests_witness:
  "fst (fetch_gcp_secret (mock_platform full_environ) (start empty_cluster)) = Inr ''{}''
   \<and> json_loads (mock_platform full_environ) ''{}'' = Inr (JObject [])
   \<and> json_loads (mock_platform full_environ) ''not json'' = Inl (JSONDecodeError ''Expecting value'')
   \<and> is_JSONDecodeError (JSONDecodeError ''Expecting value'')
   \<and> fst (fetch_gcp_secret (mock_platform full_environ)
            (start (empty_cluster\<lparr>secret_payload := Inr ''not json''\<rparr>))) =
       Inl (Exception ''Secret is not a valid JSON string'')
   \<and> issued (start (empty_cluster\<lparr>secret_payload := Inr ''not json''\<rparr>))
         (snd (create_vertexai_embedding_inference_endpoint (mock_platform full_environ) mock_es_client
                 ''vertexai_embeddings'' (start (empty_cluster\<lparr>secret_payload := Inr ''not json''\<rparr>)))) =
       [AccessSecretVersion
          ''projects/rag-query-analytics/secrets/snippets-api-project-service-account-json/versions/latest'']"
proof -
  have ok: "fst (fetch_gcp_secret (mock_platform full_environ) (start empty_cluster)) = Inr ''{}''"
    by code_simp
  have loads: "json_loads (mock_platform full_environ) ''{}'' = Inr (JObject [])"
    using ok secret_validated_before_endpoint_requests [where pf = "mock_platform full_environ"
        and s = "start empty_cluster" and v = "''{}''", THEN conjunct1]
    by (simp add: mock_platform_def mock_json_loads_def)
  have bad: "fst (access_secret_version (mock_platform full_environ)
             ''projects/rag-query-analytics/secrets/snippets-api-project-service-account-json/versions/latest''
             (remote (start (empty_cluster\<lparr>secret_payload := Inr ''not json''\<rparr>)))) = Inr ''not json''
      \<and> json_loads (mock_platform full_environ) ''not json'' = Inl (JSONDecodeError ''Expecting value'')"
    by code_simp
  have d: "is_JSONDecodeError (JSONDecodeError ''Expecting value'')"
    by simp
  have r: "fst (fetch_gcp_secret (mock_platform full_environ)
            (start (empty_cluster\<lparr>secret_payload := Inr ''not json''\<rparr>))) =
        Inl (Exception ''Secret is not a valid JSON string'')
      \<and> issued (start (empty_cluster\<lparr>secret_payload := Inr ''not json''\<rparr>))
         (snd (create_vertexai_embedding_inference_endpoint (mock_platform full_environ) mock_es_client
                 ''vertexai_embeddings'' (start (empty_cluster\<lparr>secret_payload := Inr ''not json''\<rparr>)))) =
       [AccessSecretVersion
          ''projects/rag-query-analytics/secrets/snippets-api-project-service-account-json/versions/latest'']"
    using bad d secret_validated_before_endpoint_requests [where pf = "mock_platform full_environ"
        and s = "start (empty_cluster\<lparr>secret_payload := Inr ''not json''\<rparr>)" and v = "''not json''"
        and e = "JSONDecodeError ''Expecting value''" and es = mock_es_client
        and iid = "''vertexai_embeddings''", THEN conjunct2]
    by simp
  show ?thesis
    using ok loads bad d r by simp
qed

section \<open>The composite pipeline\<close>

text \<open>
  Claim C9. Whenever a run of the provisioning sequence issues the put of the
  composite pipeline \<open>self-served-crawler-pipeline\<close>, the processors it sends are
  exactly three pipeline references by name, in this order: \<open>search-default-ingestion\<close>,
  \<open>es-crawler-normalizer-pipeline\<close>, \<open>es-crawler-embedding-pipeline\<close>.
\<close>

theorem composite_chains_default_normalizer_embedding:
  "PutPipeline ''self-served-crawler-pipeline'' d ps
     \<in> set (issued s (snd (create_self_served_crawler_pipelines es s))) \<longrightarrow>
   ps = [JObject [(''pipeline'', JObject [(''name'', JString ''search-default-ingestion'')])],
         JObject [(''pipeline'', JObject [(''name'', JString ''es-crawler-normalizer-pipeline'')])],
         JObject [(''pipeline'', JObject [(''name'', JString ''es-crawler-embedding-pipeline'')])]]
   \<and> length ps = 3"
proof
  assume put: "PutPipeline ''self-served-crawler-pipeline'' d ps
     \<in> set (issued s (snd (create_self_served_crawler_pipelines es s)))"
  from sequence_requests [of es s] obtain xs
    where "calls (snd (create_self_served_crawler_pipelines es s)) = calls s @ xs"
      and sub: "set xs \<subseteq> set provisioning_requests"
    by blast
  then have "issued s (snd (create_self_served_crawler_pipelines es s)) = xs"
    by (simp add: issued_append)
  with put sub have "PutPipeline ''self-served-crawler-pipeline'' d ps \<in> set provisioning_requests"
    by auto
  then show "ps = [JObject [(''pipeline'', JObject [(''name'', JString ''search-default-ingestion'')])],
         JObject [(''pipeline'', JObject [(''name'', JString ''es-crawler-normalizer-pipeline'')])],
         JObject [(''pipeline'', JObject [(''name'', JString ''es-crawler-embedding-pipeline'')])]]
   \<and> length ps = 3"
    by (simp add: provisioning_requests_def)
qed

text \<open>
  The theorem at the empty in-memory cluster, where the run does issue the put of the
  composite pipeline.
\<close>

theorem composite_chains_default_normalizer_embedding_witness:
  "PutPipeline ''self-served-crawler-pipeline''
       ''Pipeline for self-served crawler to normalize and generate embeddings''
       [JObject [(''pipeline'', JObject [(''name'', JString ''search-default-ingestion'')])],
        JObject [(''pipeline'', JObject [(''name'', JString ''es-crawler-normalizer-pipeline'')])],
        JObject [(''pipeline'', JObject [(''name'', JString ''es-crawler-embedding-pipeline'')])]]
     \<in> set (issued (start empty_cluster)
              (snd (create_self_served_crawler_pipelines mock_es_client (start empty_cluster))))
   \<and> length [JObject [(''pipeline'', JObject [(''name'', JString ''search-default-ingestion'')])],
        JObject [(''pipeline'', JObject [(''name'', JString ''es-crawler-normalizer-pipeline'')])],
        JObject [(''pipeline'', JObject [(''name'', JString ''es-crawler-embedding-pipeline'')])]] = 3"
proof -
  have put: "PutPipeline ''self-served-crawler-pipeline''
       ''Pipeline for self-served crawler to normalize and generate embeddings''
       [JObject [(''pipeline'', JObject [(''name'', JString ''search-default-ingestion'')])],
        JObject [(''pipeline'', JObject [(''name'', JString ''es-crawler-normalizer-pipeline'')])],
        JObject [(''pipeline'', JObject [(''name'', JString ''es-crawler-embedding-pipeline'')])]]
     \<in> set (issued (start empty_cluster)
              (snd (create_self_served_crawler_pipelines mock_es_client (start empty_cluster))))"
    by code_simp
  from put composite_chains_default_normalizer_embedding [THEN mp, OF put]
  show ?thesis
    by blast
qed

section \<open>Only the given identifiers\<close>

text \<open>
  Claim C10. Whenever \<open>setup_ingest_pipeline\<close> or
  \<open>create_vertexai_embedding_inference_endpoint\<close> returns, the value is the identifier
  it was given or \<open>None\<close>. Hence every request of the provisioning sequence names one of
  the three fixed pipeline identifiers. (The names that the composite pipeline refers
  to are the three constants of the previous section.)
\<close>

theorem ensure_returns_given_id_or_none:
  "(fst (setup_ingest_pipeline es pid d ps s) = Inr r \<longrightarrow> r = Some pid \<or> r = None)
   \<and> (fst (create_vertexai_embedding_inference_endpoint pf es iid s) = Inr r \<longrightarrow>
        r = Some iid \<or> r = None)
   \<and> (\<forall>c \<in> set (issued s (snd (create_self_served_crawler_pipelines es s))).
        resource_id c = Some ''es-crawler-normalizer-pipeline''
        \<or> resource_id c = Some ''es-crawler-embedding-pipeline''
        \<or> resource_id c = Some ''self-served-crawler-pipeline'')"
proof (intro conjI impI ballI)
  assume "fst (setup_ingest_pipeline es pid d ps s) = Inr r"
  then show "r = Some pid \<or> r = None"
    by (auto simp: setup_result split: sum.splits if_splits)
next
  assume "fst (create_vertexai_embedding_inference_endpoint pf es iid s) = Inr r"
  then show "r = Some iid \<or> r = None"
    by (auto simp: create_vertexai_embedding_inference_endpoint_def invoke_eq Let_def
        split: sum.splits prod.splits if_splits)
next
  fix c
  assume c: "c \<in> set (issued s (snd (create_self_served_crawler_pipelines es s)))"
  from sequence_requests [of es s] obtain xs
    where "calls (snd (create_self_served_crawler_pipelines es s)) = calls s @ xs"
      and sub: "set xs \<subseteq> set provisioning_requests"
    by blast
  then have "issued s (snd (create_self_served_crawler_pipelines es s)) = xs"
    by (simp add: issued_append)
  with c sub have "c \<in> set provisioning_requests"
    by auto
  then show "resource_id c = Some ''es-crawler-normalizer-pipeline''
        \<or> resource_id c = Some ''es-crawler-embedding-pipeline''
        \<or> resource_id c = Some ''self-served-crawler-pipeline''"
    by (auto simp: provisioning_requests_def)
qed

text \<open>
  The theorem on the in-memory cluster: an ensure call that returns the identifier,
  one that returns \<open>None\<close>, and a request of a run against the empty cluster.
\<close>

theorem ensure_returns_given_id_or_none_witness:
  "fst (setup_ingest_pipeline mock_es_client ''p'' ''d'' [] (start (holding ''p''))) = Inr (Some ''p'')
   \<and> fst (setup_ingest_pipeline mock_es_client ''p'' ''d'' [] (start (rejecting ''p''))) = Inr None
   \<and> fst (create_vertexai_embedding_inference_endpoint (mock_platform full_environ) mock_es_client
            ''vertexai_embeddings'' (start empty_cluster)) = Inr (Some ''vertexai_embeddings'')
   \<and> GetPipeline ''self-served-crawler-pipeline''
        \<in> set (issued (start empty_cluster)
                 (snd (create_self_served_crawler_pipelines mock_es_client (start empty_cluster))))
   \<and> (resource_id (GetPipeline ''self-served-crawler-pipeline'') = Some ''es-crawler-normalizer-pipeline''
        \<or> resource_id (GetPipeline ''self-served-crawler-pipeline'') = Some ''es-crawler-embedding-pipeline''
        \<or> resource_id (GetPipeline ''self-served-crawler-pipeline'') = Some ''self-served-crawler-pipeline'')"
proof -
  have a: "fst (setup_ingest_pipeline mock_es_client ''p'' ''d'' [] (start (holding ''p''))) = Inr (Some ''p'')"
    by code_simp
  have b: "fst (setup_ingest_pipeline mock_es_client ''p'' ''d'' [] (start (rejecting ''p''))) = Inr None"
    by code_simp
  have i: "fst (create_vertexai_embedding_inference_endpoint (mock_platform full_environ) mock_es_client
            ''vertexai_embeddings'' (start empty_cluster)) = Inr (Some ''vertexai_embeddings'')"
    by code_simp
  have m: "GetPipeline ''self-served-crawler-pipeline''
        \<in> set (issued (start empty_cluster)
                 (snd (create_self_served_crawler_pipelines mock_es_client (start empty_cluster))))"
    by code_simp
  note inst = ensure_returns_given_id_or_none [where es = mock_es_client and s = "start empty_cluster"]
  from inst [THEN conjunct2, THEN conjunct2, THEN bspec, OF m]
  have "resource_id (GetPipeline ''self-served-crawler-pipeline'') = Some ''es-crawler-normalizer-pipeline''
        \<or> resource_id (GetPipeline ''self-served-crawler-pipeline'') = Some ''es-crawler-embedding-pipeline''
        \<or> resource_id (GetPipeline ''self-served-crawler-pipeline'') = Some ''self-served-crawler-pipeline''" .
  moreover
  from a ensure_returns_given_id_or_none
    [where es = mock_es_client and s = "start (holding ''p'')" and pid = "''p''" and d = "''d''"
       and ps = "[]" and r = "Some ''p''", THEN conjunct1]
  have "Some ''p'' = Some ''p'' \<or> Some ''p'' = (None :: string option)"
    by blast
  ultimately show ?thesis
    using a b i m by blast
qed

end
